theory Spec2Isabelle
  imports Complex_Main "HOL-Library.Word"
begin

section \<open>TimeClock: a desktop clock with HTTP time synchronisation\<close>

text \<open>
  A shallow embedding of \<^verbatim>\<open>src/TimeClockWindows.py\<close> (the annotated copy
  \<^verbatim>\<open>src/TimeClockWindowsNotes.py\<close> has the same \<^verbatim>\<open>fetch_ntp\<close>, \<^verbatim>\<open>_now\<close>,
  \<^verbatim>\<open>_ntp_loop\<close>, \<^verbatim>\<open>_save\<close> and \<^verbatim>\<open>_load\<close>). Conventions:

  \<^item> an instant is a whole number of microseconds since the Unix epoch, the resolution
    of Python's \<^verbatim>\<open>datetime\<close>;
  \<^item> a Python \<^verbatim>\<open>float\<close> is an IEEE 754 double. A finite one is written as a rational
    and stands for the double nearest to it, as a literal or a JSON number does: the
    operations on floats round their operands and their results (\<open>round_double\<close>);
  \<^item> an attribute that \<^verbatim>\<open>_load\<close> fills from the JSON file without a type check holds
    a dynamically typed value (\<open>pyval\<close>);
  \<^item> a \<^verbatim>\<open>raise\<close> is the left injection of a sum, and every \<^verbatim>\<open>try\<close>/\<^verbatim>\<open>except\<close> of the
    source is a case distinction on it.
\<close>

subsection \<open>Python values, exceptions, dates\<close>

type_synonym usec = int
type_synonym pyfloat = rat

text \<open>The exception classes the modelled code can meet; all derive from \<^verbatim>\<open>Exception\<close>.\<close>

datatype exn =
    Timeout | ConnectionError | RequestException
  | ValueError | TypeError | OverflowError | AttributeError
  | OSError | PermissionError | UnicodeDecodeError | JSONDecodeError

text \<open>What \<^verbatim>\<open>json.loads\<close> can return, which is also what the attributes can hold.
  Python's \<^verbatim>\<open>json\<close> also reads the literals \<^verbatim>\<open>NaN\<close>, \<^verbatim>\<open>Infinity\<close> and
  \<^verbatim>\<open>-Infinity\<close>.\<close>

datatype nonfinite = NaN | PosInf | NegInf

datatype pyval =
    PNone | PBool bool | PInt int | PFloat pyfloat | PNonFinite nonfinite | PStr string
  | PList "pyval list" | PDict "(string \<times> pyval) list"

text \<open>
  A \<^verbatim>\<open>datetime\<close>: naive (wall-clock reading only) or aware (the UTC instant and the
  zone's offset from UTC, both in microseconds).
\<close>

datatype pydatetime = Naive usec | Aware usec int

fun wall_clock :: "pydatetime \<Rightarrow> usec" where
  "wall_clock (Naive t) = t"
| "wall_clock (Aware t z) = t + z"

text \<open>\<^verbatim>\<open>datetime.min\<close> is 0001-01-01T00:00:00 and \<^verbatim>\<open>datetime.max\<close> is
  9999-12-31T23:59:59.999999; a \<^verbatim>\<open>timedelta\<close> holds at most 999999999 days either way.\<close>

definition datetime_min :: usec where
  "datetime_min = - 62135596800000000"

definition datetime_max :: usec where
  "datetime_max = 253402300799999999"

definition timedelta_min :: usec where
  "timedelta_min = - 999999999 * 86400000000"

definition timedelta_max :: usec where
  "timedelta_max = 1000000000 * 86400000000 - 1"

definition round_half_even :: "rat \<Rightarrow> int" where
  "round_half_even x =
     (let f = \<lfloor>x\<rfloor>; r = x - of_int f
      in if r < 1 / 2 then f else if 1 / 2 < r then f + 1 else if even f then f else f + 1)"

definition trunc :: "rat \<Rightarrow> int" where
  "trunc x = (if 0 \<le> x then \<lfloor>x\<rfloor> else \<lceil>x\<rceil>)"

subsection \<open>Double precision\<close>

text \<open>\<open>\<lfloor>log\<^sub>2 n\<rfloor>\<close> for a positive natural number, and \<open>\<lfloor>log\<^sub>2 x\<rfloor>\<close> for a positive
  rational (\<open>- \<lceil>log\<^sub>2 (1 / x)\<rceil>\<close> below one).\<close>

fun log2_nat :: "nat \<Rightarrow> nat" where
  "log2_nat n = (if n < 2 then 0 else Suc (log2_nat (n div 2)))"

declare log2_nat.simps [simp del]

definition floor_log2 :: "rat \<Rightarrow> int" where
  "floor_log2 x =
     (if 1 \<le> x then int (log2_nat (nat \<lfloor>x\<rfloor>))
      else - int (Suc (log2_nat (nat (\<lceil>1 / x\<rceil> - 1)))))"

definition pow2 :: "int \<Rightarrow> rat" where
  "pow2 k = (if 0 \<le> k then 2 ^ nat k else 1 / 2 ^ nat (- k))"

text \<open>
  Rounding to double precision, to nearest and ties to even: a number in
  \<open>[2\<^sup>e, 2\<^sup>e\<^sup>+\<^sup>1)\<close> is rounded to a multiple of \<open>2\<^sup>e\<^sup>-\<^sup>5\<^sup>2\<close>, and of \<open>2\<^sup>-\<^sup>1\<^sup>0\<^sup>7\<^sup>4\<close> in the
  subnormal range. A result of magnitude \<open>2\<^sup>1\<^sup>0\<^sup>2\<^sup>4\<close> or more is an infinity.
\<close>

definition round_finite :: "rat \<Rightarrow> rat" where
  "round_finite x =
     (if x = 0 then 0
      else let q = pow2 (max (floor_log2 \<bar>x\<bar>) (- 1022) - 52)
           in of_int (round_half_even (x / q)) * q)"

datatype float64 = Fin rat | NonFin nonfinite

definition round_double :: "rat \<Rightarrow> float64" where
  "round_double x =
     (let y = round_finite x
      in if 2 ^ 1024 \<le> \<bar>y\<bar> then NonFin (if 0 < x then PosInf else NegInf) else Fin y)"

text \<open>\<^verbatim>\<open>a + b\<close> on two floats.\<close>

fun float64_add :: "float64 \<Rightarrow> float64 \<Rightarrow> float64" where
  "float64_add (Fin x) (Fin y) = round_double (x + y)"
| "float64_add (NonFin NaN) b = NonFin NaN"
| "float64_add a (NonFin NaN) = NonFin NaN"
| "float64_add (NonFin PosInf) (NonFin NegInf) = NonFin NaN"
| "float64_add (NonFin NegInf) (NonFin PosInf) = NonFin NaN"
| "float64_add (NonFin s) b = NonFin s"
| "float64_add a (NonFin s) = NonFin s"

text \<open>
  \<^verbatim>\<open>dt.timedelta(seconds=x)\<close> for a float \<open>x\<close>. The constructor splits \<open>x\<close> into its
  whole and fractional seconds, multiplies the fraction by \<^verbatim>\<open>1e6\<close> in double precision
  and rounds the microseconds to a whole number, ties to even. It raises
  \<^verbatim>\<open>ValueError\<close> on NaN and \<^verbatim>\<open>OverflowError\<close> on an infinity or outside the range of
  days.
\<close>

definition timedelta_us :: "rat \<Rightarrow> int" where
  "timedelta_us x =
     round_half_even
       (of_int (trunc x * 1000000) + round_finite (1000000 * (x - of_int (trunc x))))"

fun timedelta_seconds :: "float64 \<Rightarrow> exn + usec" where
  "timedelta_seconds (NonFin NaN) = Inl ValueError"
| "timedelta_seconds (NonFin s) = Inl OverflowError"
| "timedelta_seconds (Fin x) =
     (let us = timedelta_us x
      in if timedelta_min \<le> us \<and> us \<le> timedelta_max then Inr us else Inl OverflowError)"

subsection \<open>Dates\<close>

text \<open>\<^verbatim>\<open>d + delta\<close>: the wall-clock reading must stay within \<^verbatim>\<open>datetime\<close>'s range.\<close>

definition datetime_add :: "pydatetime \<Rightarrow> usec \<Rightarrow> exn + pydatetime" where
  "datetime_add d delta =
     (if datetime_min \<le> wall_clock d + delta \<and> wall_clock d + delta \<le> datetime_max
      then Inr (case d of Naive t \<Rightarrow> Naive (t + delta) | Aware t z \<Rightarrow> Aware (t + delta) z)
      else Inl OverflowError)"

text \<open>\<^verbatim>\<open>a - b\<close> on two datetimes: a \<^verbatim>\<open>TypeError\<close> when one is naive and the other aware.\<close>

fun datetime_sub :: "pydatetime \<Rightarrow> pydatetime \<Rightarrow> exn + usec" where
  "datetime_sub (Aware s _) (Aware t _) = Inr (s - t)"
| "datetime_sub (Naive s) (Naive t) = Inr (s - t)"
| "datetime_sub _ _ = Inl TypeError"

definition total_seconds :: "usec \<Rightarrow> pyfloat" where
  "total_seconds delta = of_int delta / 1000000"

text \<open>\<^verbatim>\<open>d.astimezone(dt.timezone(z))\<close> on an aware datetime: the same instant, read in
  the zone \<open>z\<close>; the new wall-clock reading must be representable.\<close>

fun astimezone :: "pydatetime \<Rightarrow> int \<Rightarrow> exn + pydatetime" where
  "astimezone (Aware t _) z =
     (if datetime_min \<le> t + z \<and> t + z \<le> datetime_max then Inr (Aware t z)
      else Inl OverflowError)"
| "astimezone (Naive t) z = Inl ValueError"

text \<open>The float that \<^verbatim>\<open>float + v\<close> makes of \<open>v\<close>: \<^verbatim>\<open>bool\<close> is a subclass of
  \<^verbatim>\<open>int\<close>, an \<^verbatim>\<open>int\<close> is converted to the nearest double and raises
  \<^verbatim>\<open>OverflowError\<close> when it is too large for one; anything else makes the addition raise
  \<^verbatim>\<open>TypeError\<close>.\<close>

fun as_number :: "pyval \<Rightarrow> exn + float64" where
  "as_number (PFloat x) = Inr (round_double x)"
| "as_number (PNonFinite s) = Inr (NonFin s)"
| "as_number (PInt n) =
     (case round_double (of_int n) of Fin y \<Rightarrow> Inr (Fin y) | NonFin s \<Rightarrow> Inl OverflowError)"
| "as_number (PBool b) = Inr (Fin (if b then 1 else 0))"
| "as_number v = Inl TypeError"

definition float_add :: "pyfloat \<Rightarrow> pyval \<Rightarrow> exn + float64" where
  "float_add a v =
     (case as_number v of Inl x \<Rightarrow> Inl x | Inr b \<Rightarrow> Inr (float64_add (round_double a) b))"

subsection \<open>Colours\<close>

text \<open>
  A \<^verbatim>\<open>QColor\<close> is modelled by the three 8-bit channels that \<^verbatim>\<open>QColor.name()\<close>
  prints; the alpha channel and the validity flag of Qt are not modelled.
\<close>

record qcolor =
  red :: "8 word"
  green :: "8 word"
  blue :: "8 word"

definition hex_digit :: "nat \<Rightarrow> char" where
  "hex_digit n = ''0123456789abcdef'' ! (n mod 16)"

definition hex_byte :: "8 word \<Rightarrow> string" where
  "hex_byte w = [hex_digit (unat w div 16), hex_digit (unat w mod 16)]"

text \<open>\<^verbatim>\<open>QColor.name()\<close>: \<^verbatim>\<open>#rrggbb\<close> in lower-case hexadecimal.\<close>

definition color_name :: "qcolor \<Rightarrow> string" where
  "color_name c = CHR ''#'' # hex_byte (red c) @ hex_byte (green c) @ hex_byte (blue c)"

definition white :: qcolor where
  "white = \<lparr>red = 255, green = 255, blue = 255\<rparr>"

subsection \<open>The clock widget's attributes\<close>

text \<open>
  The attributes of \<^verbatim>\<open>DigitalClock\<close> that the modelled methods read or write, and
  the window position that \<^verbatim>\<open>self.x()\<close>, \<^verbatim>\<open>self.y()\<close> and \<^verbatim>\<open>self.move\<close> access
  (C \<^verbatim>\<open>int\<close>s in Qt). \<open>offset\<close> is the network offset and is only ever assigned a
  \<^verbatim>\<open>float\<close>.
\<close>

record app =
  time_pt :: pyval
  spacing :: pyval
  opacity :: pyval
  topmost :: pyval
  color :: qcolor
  offset :: pyfloat
  manual_offset :: pyval
  pos :: "32 word \<times> 32 word"

text \<open>The defaults that \<^verbatim>\<open>__init__\<close> assigns; the window starts where Qt puts it.\<close>

definition init :: "32 word \<times> 32 word \<Rightarrow> app" where
  "init p =
     \<lparr>time_pt = PFloat 10, spacing = PFloat 2, opacity = PFloat 90, topmost = PBool True,
      color = white, offset = 0, manual_offset = PFloat 0, pos = p\<rparr>"

subsection \<open>The time source\<close>

text \<open>\<^verbatim>\<open>dt.timedelta(hours=8)\<close>, the hard-coded display zone.\<close>

definition utc_plus_8 :: int where
  "utc_plus_8 = 8 * 3600 * 1000000"

text \<open>
  \<^verbatim>\<open>_now\<close>, given the reading \<open>t\<close> of the system clock that
  \<^verbatim>\<open>dt.datetime.now(dt.UTC)\<close> returns. It returns a value and no new state: the method
  assigns nothing.
\<close>

definition now :: "app \<Rightarrow> usec \<Rightarrow> exn + pydatetime" where
  "now self t =
     (let current_utc = Aware t 0 in
      case float_add (offset self) (manual_offset self) of
        Inl e \<Rightarrow> Inl e
      | Inr secs \<Rightarrow>
         (case timedelta_seconds secs of
            Inl e \<Rightarrow> Inl e
          | Inr delta \<Rightarrow>
             (case datetime_add current_utc delta of
                Inl e \<Rightarrow> Inl e
              | Inr adjusted_utc \<Rightarrow> astimezone adjusted_utc utc_plus_8)))"

subsection \<open>The log and the outside world\<close>

text \<open>
  \<^verbatim>\<open>logging.basicConfig(level=logging.INFO, ...)\<close> installs a handler that appends to
  a log file on disk (and one that prints the same records to the console, which is
  not modelled). Records below \<^verbatim>\<open>INFO\<close> are dropped. One constructor per logging call
  of the modelled functions, carrying the values the message interpolates.
\<close>

datatype level = DEBUG | INFO | WARNING | ERROR

fun level_no :: "level \<Rightarrow> nat" where
  "level_no DEBUG = 10"
| "level_no INFO = 20"
| "level_no WARNING = 30"
| "level_no ERROR = 40"

datatype message =
    NtpTrying | NtpGot pydatetime | NtpNoDate | NtpTimeout | NtpConnectionFailed exn
  | NtpRequestFailed exn | NtpUnknownError exn | NtpFallback pydatetime
  | LoopStarted | OffsetUpdated pyfloat | LoopError exn
  | SaveTrying | Saved | SavedData pyval | SaveFailed exn
  | LoadTrying | RawData | PosLoaded pyval pyval | PosInvalid pyval | PosBadFormat pyval
  | PosMissing | Loaded | LoadedAttrs | LoadJsonError | DefaultsAfterJsonError
  | LoadError exn | DefaultsAfterError | ConfigMissing

text \<open>
  The settings file as \<^verbatim>\<open>_load\<close> meets it: absent; inaccessible (\<^verbatim>\<open>stat\<close> fails with
  an error other than "no such file", a \<^verbatim>\<open>PermissionError\<close> for instance); present but
  unreadable (\<^verbatim>\<open>read_text\<close> raises); present with text that \<^verbatim>\<open>json.loads\<close> rejects; or
  present with text that \<^verbatim>\<open>json.loads\<close> turns into a value. \<^verbatim>\<open>json.dumps\<close> and
  \<^verbatim>\<open>json.loads\<close> are library code; the model keeps the value instead of its text.
\<close>

datatype file_state = Absent | Inaccessible exn | Unreadable exn | Malformed | Json pyval

text \<open>
  \<^verbatim>\<open>CONFIG_FILE.exists()\<close>. In the Python versions the program runs on (3.11, for
  \<^verbatim>\<open>dt.UTC\<close>, and 3.12), \<^verbatim>\<open>Path.exists\<close> answers \<^verbatim>\<open>False\<close> when \<^verbatim>\<open>stat\<close> fails with
  \<^verbatim>\<open>ENOENT\<close>, \<^verbatim>\<open>ENOTDIR\<close>, \<^verbatim>\<open>EBADF\<close> or \<^verbatim>\<open>ELOOP\<close> and raises every other
  \<^verbatim>\<open>OSError\<close> again.
\<close>

fun path_exists :: "file_state \<Rightarrow> exn + bool" where
  "path_exists Absent = Inr False"
| "path_exists (Inaccessible x) = Inl x"
| "path_exists f = Inr True"

record world =
  clock :: usec
  log_file :: "(usec \<times> level \<times> message) list"
  config_file :: file_state

definition logger :: "level \<Rightarrow> message \<Rightarrow> world \<Rightarrow> world" where
  "logger lvl msg w =
     (if level_no INFO \<le> level_no lvl
      then w\<lparr>log_file := log_file w @ [(clock w, lvl, msg)]\<rparr> else w)"

text \<open>Library functions the source calls and the model takes as parameters.\<close>

record lib =
  parsedate_to_datetime :: "string \<Rightarrow> exn + pydatetime"
  int_of_str :: "string \<Rightarrow> int option"
  QColor_of_name :: "string \<Rightarrow> qcolor"
  QColor_of_other :: "pyval \<Rightarrow> exn + qcolor"

subsection \<open>Fetching the time\<close>

text \<open>
  What one call of \<^verbatim>\<open>requests.head(SYNC_URL, timeout=5)\<close> does: it raises, or it
  returns a response with or without a \<^verbatim>\<open>Date\<close> header. \<open>latency\<close> is the time the call
  takes; \<open>gap\<close> is the time that passes between the return of \<^verbatim>\<open>fetch_ntp\<close> and the
  clock reading of the loop (both in microseconds, chosen by the environment).
\<close>

datatype http_result = Raises exn | Response "string option"

record attempt_env =
  http :: http_result
  latency :: nat
  gap :: nat

text \<open>The \<^verbatim>\<open>try\<close> block of \<^verbatim>\<open>fetch_ntp\<close>: it raises, returns a datetime, or falls
  through (\<open>Inr None\<close>).\<close>

definition fetch_ntp_try ::
  "lib \<Rightarrow> attempt_env \<Rightarrow> world \<Rightarrow> (exn + pydatetime option) \<times> world" where
  "fetch_ntp_try L e w =
     (let w1 = w\<lparr>clock := clock w + int (latency e)\<rparr> in
      case http e of
        Raises x \<Rightarrow> (Inl x, w1)
      | Response None \<Rightarrow> (Inr None, logger WARNING NtpNoDate w1)
      | Response (Some date) \<Rightarrow>
         (case parsedate_to_datetime L date of
            Inl x \<Rightarrow> (Inl x, w1)
          | Inr ntp_time \<Rightarrow> (Inr (Some ntp_time), logger INFO (NtpGot ntp_time) w1)))"

text \<open>The four \<^verbatim>\<open>except\<close> clauses, in the source's order; each only logs.\<close>

fun fetch_ntp_except :: "exn \<Rightarrow> message" where
  "fetch_ntp_except Timeout = NtpTimeout"
| "fetch_ntp_except ConnectionError = NtpConnectionFailed ConnectionError"
| "fetch_ntp_except RequestException = NtpRequestFailed RequestException"
| "fetch_ntp_except x = NtpUnknownError x"

text \<open>The code after the \<^verbatim>\<open>try\<close> statement: read the local clock and return it.\<close>

definition fetch_ntp_fallback :: "world \<Rightarrow> (exn + pydatetime) \<times> world" where
  "fetch_ntp_fallback w =
     (let local_utc_time = Aware (clock w) 0
      in (Inr local_utc_time, logger INFO (NtpFallback local_utc_time) w))"

definition fetch_ntp :: "lib \<Rightarrow> attempt_env \<Rightarrow> world \<Rightarrow> (exn + pydatetime) \<times> world" where
  "fetch_ntp L e w =
     (case fetch_ntp_try L e (logger INFO NtpTrying w) of
        (Inr (Some ntp_time), w1) \<Rightarrow> (Inr ntp_time, w1)
      | (Inr None, w1) \<Rightarrow> fetch_ntp_fallback w1
      | (Inl x, w1) \<Rightarrow> fetch_ntp_fallback (logger ERROR (fetch_ntp_except x) w1))"

subsection \<open>The synchronisation loop\<close>

text \<open>The body of the \<^verbatim>\<open>try\<close> block inside the loop of \<^verbatim>\<open>_ntp_loop\<close>.\<close>

definition ntp_attempt_try ::
  "lib \<Rightarrow> attempt_env \<Rightarrow> app \<times> world \<Rightarrow> (exn + unit) \<times> app \<times> world" where
  "ntp_attempt_try L e s =
     (case s of (self, w) \<Rightarrow>
      case fetch_ntp L e w of
        (Inl x, w1) \<Rightarrow> (Inl x, self, w1)
      | (Inr ntp_dt, w1) \<Rightarrow>
         (let w2 = w1\<lparr>clock := clock w1 + int (gap e)\<rparr>;
              current_utc = Aware (clock w2) 0
          in case datetime_sub ntp_dt current_utc of
               Inl x \<Rightarrow> (Inl x, self, w2)
             | Inr delta \<Rightarrow>
                (let self' = self\<lparr>offset := total_seconds delta\<rparr>
                 in (Inr (), self', logger INFO (OffsetUpdated (offset self')) w2))))"

text \<open>The \<^verbatim>\<open>try\<close> statement with its \<^verbatim>\<open>except Exception\<close> clause. \<open>Inl\<close> would be an
  exception that leaves the statement.\<close>

definition ntp_attempt ::
  "lib \<Rightarrow> attempt_env \<Rightarrow> app \<times> world \<Rightarrow> (exn + unit) \<times> app \<times> world" where
  "ntp_attempt L e s =
     (case ntp_attempt_try L e s of
        (Inr u, self, w) \<Rightarrow> (Inr u, self, w)
      | (Inl x, self, w) \<Rightarrow> (Inr (), self, logger ERROR (LoopError x) w))"

text \<open>\<^verbatim>\<open>time.sleep(secs)\<close> on the model's clock.\<close>

definition sleep :: "nat \<Rightarrow> world \<Rightarrow> world" where
  "sleep secs w = w\<lparr>clock := clock w + int secs * 1000000\<rparr>"

text \<open>
  \<^verbatim>\<open>while True\<close>: iteration \<open>k\<close> meets the environment \<open>env k\<close>. The loop has no
  \<^verbatim>\<open>break\<close> and no \<^verbatim>\<open>return\<close>; it could only end by an exception leaving the
  \<^verbatim>\<open>try\<close> statement, and then returns that exception with the state it ended in.
  \<open>None\<close> is a loop that never ends.
\<close>

partial_function (option) ntp_loop_while ::
  "lib \<Rightarrow> (nat \<Rightarrow> attempt_env) \<Rightarrow> nat \<Rightarrow> app \<times> world \<Rightarrow> (exn \<times> app \<times> world) option" where
  "ntp_loop_while L env k s =
     (case ntp_attempt L (env k) s of
        (Inl x, self, w) \<Rightarrow> Some (x, self, w)
      | (Inr u, self, w) \<Rightarrow> ntp_loop_while L env (Suc k) (self, sleep 600 w))"

definition ntp_loop ::
  "lib \<Rightarrow> (nat \<Rightarrow> attempt_env) \<Rightarrow> app \<times> world \<Rightarrow> (exn \<times> app \<times> world) option" where
  "ntp_loop L env s =
     (case s of (self, w) \<Rightarrow> ntp_loop_while L env 0 (self, logger INFO LoopStarted w))"

text \<open>The loop with fuel: the state at the top of the loop after \<open>n\<close> complete
  iterations, \<open>None\<close> if an exception has ended the loop before.\<close>

fun ntp_iterations ::
  "lib \<Rightarrow> (nat \<Rightarrow> attempt_env) \<Rightarrow> nat \<Rightarrow> app \<times> world \<Rightarrow> (app \<times> world) option" where
  "ntp_iterations L env 0 s = Some s"
| "ntp_iterations L env (Suc n) s =
     (case ntp_iterations L env n s of
        None \<Rightarrow> None
      | Some s' \<Rightarrow>
         (case ntp_attempt L (env n) s' of
            (Inl x, self, w) \<Rightarrow> None
          | (Inr u, self, w) \<Rightarrow> Some (self, sleep 600 w)))"

subsection \<open>Python and Qt helpers used by the settings code\<close>

text \<open>\<^verbatim>\<open>d.get(key, default)\<close> on a parsed JSON object, kept as an association list.\<close>

definition dict_get :: "(string \<times> pyval) list \<Rightarrow> string \<Rightarrow> pyval \<Rightarrow> pyval" where
  "dict_get d key dflt = (case map_of d key of None \<Rightarrow> dflt | Some v \<Rightarrow> v)"

text \<open>Truth value testing, as in \<^verbatim>\<open>if pos_list := d.get("pos")\<close>.\<close>

fun truthy :: "pyval \<Rightarrow> bool" where
  "truthy PNone = False"
| "truthy (PBool b) = b"
| "truthy (PInt n) = (n \<noteq> 0)"
| "truthy (PFloat x) = (round_double x \<noteq> Fin 0)"
| "truthy (PNonFinite s) = True"
| "truthy (PStr s) = (s \<noteq> [])"
| "truthy (PList xs) = (xs \<noteq> [])"
| "truthy (PDict kvs) = (kvs \<noteq> [])"

text \<open>\<^verbatim>\<open>int(v)\<close>: a float is truncated towards zero, NaN raises \<^verbatim>\<open>ValueError\<close> and
  an infinity \<^verbatim>\<open>OverflowError\<close>; a string that is no integer literal raises
  \<^verbatim>\<open>ValueError\<close>, a value of another kind \<^verbatim>\<open>TypeError\<close>.\<close>

fun py_int :: "lib \<Rightarrow> pyval \<Rightarrow> exn + int" where
  "py_int L (PInt n) = Inr n"
| "py_int L (PBool b) = Inr (if b then 1 else 0)"
| "py_int L (PFloat x) =
     (case round_double x of Fin y \<Rightarrow> Inr (trunc y) | NonFin s \<Rightarrow> Inl OverflowError)"
| "py_int L (PNonFinite NaN) = Inl ValueError"
| "py_int L (PNonFinite s) = Inl OverflowError"
| "py_int L (PStr s) = (case int_of_str L s of None \<Rightarrow> Inl ValueError | Some n \<Rightarrow> Inr n)"
| "py_int L v = Inl TypeError"

text \<open>\<^verbatim>\<open>except ValueError\<close> also catches the subclasses of \<^verbatim>\<open>ValueError\<close>.\<close>

fun is_ValueError :: "exn \<Rightarrow> bool" where
  "is_ValueError ValueError = True"
| "is_ValueError UnicodeDecodeError = True"
| "is_ValueError JSONDecodeError = True"
| "is_ValueError x = False"

text \<open>\<^verbatim>\<open>QPoint(x, y)\<close> takes C \<^verbatim>\<open>int\<close>s: a Python integer outside 32 bits raises
  \<^verbatim>\<open>OverflowError\<close>.\<close>

definition in_int32 :: "int \<Rightarrow> bool" where
  "in_int32 n = (- 2147483648 \<le> n \<and> n \<le> 2147483647)"

definition QPoint :: "int \<Rightarrow> int \<Rightarrow> exn + 32 word \<times> 32 word" where
  "QPoint x y =
     (if in_int32 x \<and> in_int32 y then Inr (word_of_int x, word_of_int y)
      else Inl OverflowError)"

text \<open>
  \<^verbatim>\<open>QColor(v)\<close>. A string of the form \<^verbatim>\<open>#rrggbb\<close> (hexadecimal digits of either case)
  gives those channels; what Qt makes of any other string (a colour name, another
  hexadecimal form, an invalid colour) and of a value that is no string is left to the
  parameters.
\<close>

definition hex_value :: "char \<Rightarrow> nat option" where
  "hex_value c =
     (let n = (of_char c :: nat) in
      if 48 \<le> n \<and> n \<le> 57 then Some (n - 48)
      else if 97 \<le> n \<and> n \<le> 102 then Some (n - 87)
      else if 65 \<le> n \<and> n \<le> 70 then Some (n - 55)
      else None)"

definition parse_hex_byte :: "char \<Rightarrow> char \<Rightarrow> 8 word option" where
  "parse_hex_byte hi lo =
     (case hex_value hi of
        None \<Rightarrow> None
      | Some h \<Rightarrow> (case hex_value lo of None \<Rightarrow> None | Some l \<Rightarrow> Some (of_nat (16 * h + l))))"

fun parse_hex6 :: "string \<Rightarrow> qcolor option" where
  "parse_hex6 [c0, r1, r2, g1, g2, b1, b2] =
     (if c0 = CHR ''#'' then
        (case parse_hex_byte r1 r2 of
           None \<Rightarrow> None
         | Some r \<Rightarrow>
            (case parse_hex_byte g1 g2 of
               None \<Rightarrow> None
             | Some g \<Rightarrow>
                (case parse_hex_byte b1 b2 of
                   None \<Rightarrow> None
                 | Some b \<Rightarrow> Some \<lparr>red = r, green = g, blue = b\<rparr>)))
      else None)"
| "parse_hex6 s = None"

definition QColor_of_str :: "lib \<Rightarrow> string \<Rightarrow> qcolor" where
  "QColor_of_str L s = (case parse_hex6 s of Some c \<Rightarrow> c | None \<Rightarrow> QColor_of_name L s)"

fun QColor :: "lib \<Rightarrow> pyval \<Rightarrow> exn + qcolor" where
  "QColor L (PStr s) = Inr (QColor_of_str L s)"
| "QColor L v = QColor_of_other L v"

subsection \<open>Saving the settings\<close>

text \<open>
  What the environment does to one call of \<^verbatim>\<open>_save\<close>: everything works; or an
  exception is raised while the dictionary is built or serialised; or
  \<^verbatim>\<open>write_text\<close> raises and leaves the file in some state.
\<close>

datatype save_env = SaveOk | BuildFails exn | WriteFails exn file_state

text \<open>The dictionary \<^verbatim>\<open>data\<close> of \<^verbatim>\<open>_save\<close>, keys in the order written.\<close>

definition save_data :: "app \<Rightarrow> pyval" where
  "save_data self =
     PDict
      [(''font'', time_pt self),
       (''opacity'', opacity self),
       (''spacing'', spacing self),
       (''color'', PStr (color_name (color self))),
       (''top'', topmost self),
       (''offset'', manual_offset self),
       (''pos'', PList [PInt (sint (fst (pos self))), PInt (sint (snd (pos self)))])]"

definition save_try :: "save_env \<Rightarrow> app \<Rightarrow> world \<Rightarrow> (exn + unit) \<times> world" where
  "save_try env self w =
     (case env of
        BuildFails x \<Rightarrow> (Inl x, w)
      | WriteFails x f \<Rightarrow> (Inl x, w\<lparr>config_file := f\<rparr>)
      | SaveOk \<Rightarrow>
         (let data = save_data self;
              w1 = w\<lparr>config_file := Json data\<rparr>
          in (Inr (), logger DEBUG (SavedData data) (logger INFO Saved w1))))"

text \<open>\<^verbatim>\<open>_save\<close>. It assigns no attribute, so the widget it returns is the one it was
  given; \<open>Inl\<close> would be an exception reaching the caller.\<close>

definition save :: "save_env \<Rightarrow> app \<Rightarrow> world \<Rightarrow> (exn + unit) \<times> app \<times> world" where
  "save env self w =
     (case save_try env self (logger INFO SaveTrying w) of
        (Inr u, w1) \<Rightarrow> (Inr u, self, w1)
      | (Inl x, w1) \<Rightarrow> (Inr (), self, logger ERROR (SaveFailed x) w1))"

subsection \<open>Loading the settings\<close>

text \<open>The inner \<^verbatim>\<open>try\<close> block: \<^verbatim>\<open>self.move(QPoint(int(pos_list[0]), int(pos_list[1])))\<close>.\<close>

definition load_pos_try ::
  "lib \<Rightarrow> pyval \<Rightarrow> pyval \<Rightarrow> app \<Rightarrow> world \<Rightarrow> (exn + unit) \<times> app \<times> world" where
  "load_pos_try L a b self w =
     (case py_int L a of
        Inl x \<Rightarrow> (Inl x, self, w)
      | Inr x' \<Rightarrow>
         (case py_int L b of
            Inl x \<Rightarrow> (Inl x, self, w)
          | Inr y' \<Rightarrow>
             (case QPoint x' y' of
                Inl x \<Rightarrow> (Inl x, self, w)
              | Inr p \<Rightarrow> (Inr (), self\<lparr>pos := p\<rparr>, logger INFO (PosLoaded a b) w))))"

text \<open>The \<^verbatim>\<open>if pos_list := d.get("pos")\<close> statement; the inner handler is
  \<^verbatim>\<open>except ValueError\<close>, any other exception travels on.\<close>

definition load_pos ::
  "lib \<Rightarrow> (string \<times> pyval) list \<Rightarrow> app \<Rightarrow> world \<Rightarrow> (exn + unit) \<times> app \<times> world" where
  "load_pos L d self w =
     (let pos_list = dict_get d ''pos'' PNone in
      if truthy pos_list then
        (case pos_list of
           PList xs \<Rightarrow>
             (if length xs = 2 then
                (case load_pos_try L (xs ! 0) (xs ! 1) self w of
                   (Inr u, self', w') \<Rightarrow> (Inr u, self', w')
                 | (Inl x, self', w') \<Rightarrow>
                     (if is_ValueError x
                      then (Inr (), self', logger ERROR (PosInvalid pos_list) w')
                      else (Inl x, self', w')))
              else (Inr (), self, logger WARNING (PosBadFormat pos_list) w))
         | _ \<Rightarrow> (Inr (), self, logger WARNING (PosBadFormat pos_list) w))
      else (Inr (), self, logger DEBUG PosMissing w))"

text \<open>The assignments after \<^verbatim>\<open>d = json.loads(raw_data)\<close>, for a \<open>d\<close> that is a JSON
  object. An exception keeps the attributes assigned before it.\<close>

definition load_dict ::
  "lib \<Rightarrow> (string \<times> pyval) list \<Rightarrow> app \<Rightarrow> world \<Rightarrow> (exn + unit) \<times> app \<times> world" where
  "load_dict L d self w =
     (let self1 = self\<lparr>time_pt := dict_get d ''font'' (time_pt self)\<rparr>;
          self2 = self1\<lparr>opacity := dict_get d ''opacity'' (opacity self1)\<rparr>;
          self3 = self2\<lparr>spacing := dict_get d ''spacing'' (spacing self2)\<rparr>
      in case QColor L (dict_get d ''color'' (PStr (color_name (color self3)))) of
           Inl x \<Rightarrow> (Inl x, self3, w)
         | Inr c \<Rightarrow>
            (let self4 = self3\<lparr>color := c\<rparr>;
                 self5 = self4\<lparr>topmost := dict_get d ''top'' (topmost self4)\<rparr>;
                 self6 = self5\<lparr>manual_offset := dict_get d ''offset'' (PFloat 0)\<rparr>
             in case load_pos L d self6 w of
                  (Inl x, self7, w1) \<Rightarrow> (Inl x, self7, w1)
                | (Inr u, self7, w1) \<Rightarrow>
                    (Inr u, self7, logger DEBUG LoadedAttrs (logger INFO Loaded w1))))"

text \<open>The outer \<^verbatim>\<open>try\<close> block. A value that is no JSON object has no \<^verbatim>\<open>get\<close>.\<close>

definition load_try :: "lib \<Rightarrow> app \<Rightarrow> world \<Rightarrow> (exn + unit) \<times> app \<times> world" where
  "load_try L self w =
     (case config_file w of
        Absent \<Rightarrow> (Inl OSError, self, w)
      | Inaccessible x \<Rightarrow> (Inl x, self, w)
      | Unreadable x \<Rightarrow> (Inl x, self, w)
      | Malformed \<Rightarrow> (Inl JSONDecodeError, self, w)
      | Json v \<Rightarrow>
         (case v of
            PDict d \<Rightarrow> load_dict L d self (logger DEBUG RawData w)
          | _ \<Rightarrow> (Inl AttributeError, self, logger DEBUG RawData w)))"

text \<open>
  \<^verbatim>\<open>_load\<close>: \<^verbatim>\<open>if CONFIG_FILE.exists()\<close>, then the \<^verbatim>\<open>try\<close> statement with its two
  handlers, \<^verbatim>\<open>except json.JSONDecodeError\<close> and \<^verbatim>\<open>except Exception\<close>. The test stands
  outside the \<^verbatim>\<open>try\<close> statement: an exception it raises reaches the caller.
\<close>

definition load :: "lib \<Rightarrow> app \<Rightarrow> world \<Rightarrow> (exn + unit) \<times> app \<times> world" where
  "load L self w =
     (let w0 = logger INFO LoadTrying w in
      case path_exists (config_file w0) of
        Inl x \<Rightarrow> (Inl x, self, w0)
      | Inr True \<Rightarrow>
         (case load_try L self w0 of
            (Inr u, self', w') \<Rightarrow> (Inr u, self', w')
          | (Inl x, self', w') \<Rightarrow>
              (if x = JSONDecodeError
               then (Inr (), self',
                     logger WARNING DefaultsAfterJsonError (logger ERROR LoadJsonError w'))
               else (Inr (), self',
                     logger WARNING DefaultsAfterError (logger ERROR (LoadError x) w'))))
      | Inr False \<Rightarrow> (Inr (), self, logger WARNING ConfigMissing w0))"

subsection \<open>Notions of the specification\<close>

text \<open>
  The specification's outcome of an attempt: \<open>Some d\<close> is \<^verbatim>\<open>Success{server_instant}\<close>
  (a response whose \<^verbatim>\<open>Date\<close> header parses to \<open>d\<close>), \<open>None\<close> is \<^verbatim>\<open>Failure\<close> (the request
  raises, the header is missing, or the header does not parse).
\<close>

definition server_instant :: "lib \<Rightarrow> attempt_env \<Rightarrow> pydatetime option" where
  "server_instant L e =
     (case http e of
        Raises x \<Rightarrow> None
      | Response None \<Rightarrow> None
      | Response (Some date) \<Rightarrow>
         (case parsedate_to_datetime L date of Inl x \<Rightarrow> None | Inr d \<Rightarrow> Some d))"

text \<open>The attempts so far, as the log file shows them: one \<^verbatim>\<open>INFO\<close> record per call of
  \<^verbatim>\<open>fetch_ntp\<close>.\<close>

definition count_attempts :: "world \<Rightarrow> nat" where
  "count_attempts w = length (filter (\<lambda>r. snd (snd r) = NtpTrying) (log_file w))"

text \<open>The keys of the settings file, and the types the specification gives their
  values (a window position is a pair of integers that fit the C \<^verbatim>\<open>int\<close>s of a Qt
  point); a key may be absent.\<close>

definition known_keys :: "string list" where
  "known_keys = [''font'', ''opacity'', ''spacing'', ''color'', ''top'', ''offset'', ''pos'']"

fun is_number :: "pyval \<Rightarrow> bool" where
  "is_number (PInt n) = True"
| "is_number (PFloat x) = True"
| "is_number (PNonFinite s) = True"
| "is_number v = False"

fun is_str :: "pyval \<Rightarrow> bool" where
  "is_str (PStr s) = True"
| "is_str v = False"

fun is_bool :: "pyval \<Rightarrow> bool" where
  "is_bool (PBool b) = True"
| "is_bool v = False"

fun is_position :: "pyval \<Rightarrow> bool" where
  "is_position (PList [PInt x, PInt y]) = (in_int32 x \<and> in_int32 y)"
| "is_position v = False"

definition has_type :: "(pyval \<Rightarrow> bool) \<Rightarrow> (string \<times> pyval) list \<Rightarrow> string \<Rightarrow> bool" where
  "has_type T d key = (case map_of d key of None \<Rightarrow> True | Some v \<Rightarrow> T v)"

definition well_typed :: "(string \<times> pyval) list \<Rightarrow> bool" where
  "well_typed d =
     (has_type is_number d ''font'' \<and> has_type is_number d ''opacity''
      \<and> has_type is_number d ''spacing'' \<and> has_type is_str d ''color''
      \<and> has_type is_bool d ''top'' \<and> has_type is_number d ''offset''
      \<and> has_type is_position d ''pos'')"

text \<open>What a well-typed value of the file stands for in the widget.\<close>

fun color_of :: "lib \<Rightarrow> pyval \<Rightarrow> qcolor" where
  "color_of L (PStr s) = QColor_of_str L s"
| "color_of L v = white"

fun position_of :: "pyval \<Rightarrow> 32 word \<times> 32 word" where
  "position_of (PList [PInt x, PInt y]) = (word_of_int x, word_of_int y)"
| "position_of v = (0, 0)"

subsection \<open>Sample inputs\<close>

text \<open>A library whose date parser knows one header value (12:00:05 UTC on 3 November
  2026), an aware datetime, and one with the zone \<^verbatim>\<open>-0000\<close>, which
  \<^verbatim>\<open>parsedate_to_datetime\<close> returns naive.\<close>

definition sample_parsedate :: "string \<Rightarrow> exn + pydatetime" where
  "sample_parsedate s =
     (if s = ''Tue, 03 Nov 2026 12:00:05 GMT'' then Inr (Aware 1793707205000000 0)
      else if s = ''Tue, 03 Nov 2026 12:00:05 -0000'' then Inr (Naive 1793707205000000)
      else Inl ValueError)"

definition sample_int_of_str :: "string \<Rightarrow> int option" where
  "sample_int_of_str s = (if s = ''12'' then Some 12 else None)"

definition sample_QColor_of_name :: "string \<Rightarrow> qcolor" where
  "sample_QColor_of_name s =
     (if s = ''white'' then white else \<lparr>red = 0, green = 0, blue = 0\<rparr>)"

definition sample_QColor_of_other :: "pyval \<Rightarrow> exn + qcolor" where
  "sample_QColor_of_other v = Inl TypeError"

definition sample_lib :: lib where
  "sample_lib =
     \<lparr>parsedate_to_datetime = sample_parsedate, int_of_str = sample_int_of_str,
      QColor_of_name = sample_QColor_of_name, QColor_of_other = sample_QColor_of_other\<rparr>"

text \<open>A request that times out after five seconds, a request answered with the known
  header, an environment whose even attempts time out, and the same as a mock without
  latency.\<close>

definition timeout_env :: attempt_env where
  "timeout_env = \<lparr>http = Raises Timeout, latency = 5000000, gap = 20\<rparr>"

definition reply_env :: "nat \<Rightarrow> nat \<Rightarrow> attempt_env" where
  "reply_env lat g =
     \<lparr>http = Response (Some ''Tue, 03 Nov 2026 12:00:05 GMT''), latency = lat, gap = g\<rparr>"

definition sample_env :: "nat \<Rightarrow> attempt_env" where
  "sample_env k = (if even k then timeout_env else reply_env 2000000 0)"

definition mock_env :: "nat \<Rightarrow> attempt_env" where
  "mock_env k = (if even k then timeout_env else reply_env 0 0) \<lparr>latency := 0, gap := 0\<rparr>"

text \<open>A world whose clock reads 12:00:00 UTC on 3 November 2026, with an empty log and
  no settings file.\<close>

definition sample_world :: world where
  "sample_world = \<lparr>clock = 1793707200000000, log_file = [], config_file = Absent\<rparr>"

text \<open>A widget whose settings all differ from the defaults.\<close>

definition sample_app :: app where
  "sample_app =
     \<lparr>time_pt = PFloat 14, spacing = PFloat 3, opacity = PFloat 80, topmost = PBool False,
      color = \<lparr>red = 255, green = 128, blue = 0\<rparr>, offset = 3, manual_offset = PFloat (3 / 2),
      pos = (100, 40)\<rparr>"

text \<open>A settings file with an unknown key and without \<^verbatim>\<open>opacity\<close>.\<close>

definition sample_settings :: "(string \<times> pyval) list" where
  "sample_settings =
     [(''font'', PFloat 14), (''spacing'', PFloat 3), (''color'', PStr ''#ff8000''),
      (''top'', PBool False), (''offset'', PFloat (3 / 2)), (''pos'', PList [PInt 100, PInt 40]),
      (''theme'', PStr ''dark'')]"

section \<open>Properties\<close>

lemmas sample_defs =
  sample_lib_def sample_parsedate_def sample_world_def timeout_env_def reply_env_def
  sample_env_def mock_env_def init_def

subsection \<open>Double precision and the time source\<close>

text \<open>Rules that let the simplifier evaluate the floors and ceilings of fractions.\<close>

lemma floor_numeral_div:
  "\<lfloor>numeral a / numeral b :: rat\<rfloor> = numeral a div numeral b"
  "\<lfloor>- (numeral a / numeral b) :: rat\<rfloor> = - numeral a div numeral b"
  "\<lfloor>1 / numeral b :: rat\<rfloor> = 1 div numeral b"
  "\<lfloor>- (1 / numeral b) :: rat\<rfloor> = - 1 div numeral b"
  using floor_divide_of_int_eq [of "numeral a" "numeral b", where ?'a = rat]
    floor_divide_of_int_eq [of "- numeral a" "numeral b", where ?'a = rat]
    floor_divide_of_int_eq [of 1 "numeral b", where ?'a = rat]
    floor_divide_of_int_eq [of "- 1" "numeral b", where ?'a = rat]
  by simp_all

lemma ceiling_numeral_div:
  "\<lceil>numeral a / numeral b :: rat\<rceil> = - (- numeral a div numeral b)"
  "\<lceil>- (numeral a / numeral b) :: rat\<rceil> = - (numeral a div numeral b)"
  "\<lceil>1 / numeral b :: rat\<rceil> = - (- 1 div numeral b)"
  "\<lceil>- (1 / numeral b) :: rat\<rceil> = - (1 div numeral b)"
  unfolding ceiling_def by (simp_all add: floor_numeral_div)

lemmas float_eval =
  round_double_def round_finite_def floor_log2_def pow2_def round_half_even_def trunc_def
  timedelta_us_def log2_nat.simps Let_def floor_numeral_div ceiling_numeral_div

lemma round_half_even_near: "\<bar>of_int (round_half_even x) - x\<bar> \<le> 1 / 2"
proof -
  have "of_int \<lfloor>x\<rfloor> \<le> x" and "x < of_int \<lfloor>x\<rfloor> + 1"
    by linarith+
  then show ?thesis
    by (auto simp: round_half_even_def Let_def abs_le_iff)
qed

lemma log2_nat_le: "n < 2 ^ Suc k \<Longrightarrow> log2_nat n \<le> k"
proof (induction k arbitrary: n)
  case 0
  then show ?case by (simp add: log2_nat.simps)
next
  case (Suc k)
  from Suc.prems have "n div 2 < 2 ^ Suc k" by simp
  from Suc.IH [OF this] show ?case
    by (subst log2_nat.simps) simp
qed

lemma floor_log2_le:
  assumes "0 < x" and "x < 2 ^ Suc k"
  shows "floor_log2 x \<le> int k"
proof (cases "1 \<le> x")
  case True
  from assms(2) have "\<lfloor>x\<rfloor> < 2 ^ Suc k"
    by (simp add: floor_less_iff)
  moreover from True have "0 \<le> \<lfloor>x\<rfloor>" by simp
  ultimately have "nat \<lfloor>x\<rfloor> < 2 ^ Suc k"
    by (simp add: nat_less_iff)
  from log2_nat_le [OF this] True show ?thesis
    by (simp add: floor_log2_def)
next
  case False
  then show ?thesis by (simp add: floor_log2_def)
qed

lemma pow2_pos: "0 < pow2 k"
  by (simp add: pow2_def)

lemma pow2_le: "k \<le> - int n \<Longrightarrow> pow2 k \<le> 1 / 2 ^ n"
proof -
  assume k: "k \<le> - int n"
  show ?thesis
  proof (cases "0 \<le> k")
    case True
    with k have "n = 0" "k = 0" by simp_all
    then show ?thesis by (simp add: pow2_def)
  next
    case False
    with k have "n \<le> nat (- k)" by simp
    then have "(2::rat) ^ n \<le> 2 ^ nat (- k)"
      by (simp add: power_increasing)
    with False show ?thesis
      by (simp add: pow2_def frac_le)
  qed
qed

text \<open>Rounding a number below \<open>2\<^sup>2\<^sup>0\<close> to double precision moves it by at most
  \<open>2\<^sup>-\<^sup>3\<^sup>4\<close>.\<close>

lemma round_finite_near:
  assumes "\<bar>z\<bar> < 2 ^ 20"
  shows "\<bar>round_finite z - z\<bar> \<le> 1 / 2 ^ 34"
proof (cases "z = 0")
  case True
  then show ?thesis by (simp add: round_finite_def)
next
  case False
  define q where "q = pow2 (max (floor_log2 \<bar>z\<bar>) (- 1022) - 52)"
  have q0: "0 < q" by (simp add: q_def pow2_pos)
  from False assms have "floor_log2 \<bar>z\<bar> \<le> int 19"
    by (intro floor_log2_le) simp_all
  then have "max (floor_log2 \<bar>z\<bar>) (- 1022) - 52 \<le> - int 33" by simp
  then have q33: "q \<le> 1 / 2 ^ 33"
    unfolding q_def by (rule pow2_le)
  have "round_finite z - z = (of_int (round_half_even (z / q)) - z / q) * q"
    using False q0 by (simp add: round_finite_def q_def [symmetric] Let_def algebra_simps)
  then have "\<bar>round_finite z - z\<bar> = \<bar>of_int (round_half_even (z / q)) - z / q\<bar> * q"
    using q0 by (simp add: abs_mult)
  also have "\<dots> \<le> 1 / 2 * q"
    using round_half_even_near [of "z / q"] q0 by (intro mult_right_mono) simp_all
  also have "\<dots> \<le> 1 / 2 * (1 / 2 ^ 33)"
    using q33 by simp
  finally show ?thesis by simp
qed

lemma trunc_near: "\<bar>x - of_int (trunc x)\<bar> < 1"
  unfolding trunc_def by (simp split: if_splits) linarith

text \<open>The microseconds of \<^verbatim>\<open>dt.timedelta(seconds=x)\<close> are within
  \<open>1/2 + 2\<^sup>-\<^sup>3\<^sup>4\<close> of those of \<open>x\<close>.\<close>

lemma timedelta_us_near:
  "\<bar>of_int (timedelta_us x) - 1000000 * x\<bar> \<le> 1 / 2 + 1 / 2 ^ 34"
proof -
  define z where "z = 1000000 * (x - of_int (trunc x))"
  define y where "y = of_int (trunc x * 1000000) + round_finite z"
  have "\<bar>z\<bar> < 1000000"
    using trunc_near [of x] by (simp add: z_def abs_mult)
  then have "\<bar>z\<bar> < 2 ^ 20" by simp
  from round_finite_near [OF this] have rz: "\<bar>round_finite z - z\<bar> \<le> 1 / 2 ^ 34" .
  have x: "1000000 * x = of_int (trunc x * 1000000) + z"
    by (simp add: z_def algebra_simps)
  have "timedelta_us x = round_half_even y"
    by (simp add: timedelta_us_def y_def z_def)
  moreover have "\<bar>of_int (round_half_even y) - y\<bar> \<le> 1 / 2"
    by (rule round_half_even_near)
  moreover have "\<bar>y - 1000000 * x\<bar> \<le> 1 / 2 ^ 34"
    using rz by (simp add: y_def x)
  ultimately show ?thesis by linarith
qed

lemma now_type_error:
  "as_number (manual_offset self) = Inl x \<Longrightarrow> now self t = Inl x"
  by (simp add: now_def float_add_def)

text \<open>
  C3, as amended. \<^verbatim>\<open>_now\<close> has failure modes and computes in double precision. Let
  \<open>s\<close> be the float sum of the network offset and the manual offset. When the manual
  offset is a number, \<open>s\<close> is finite, the microseconds \<open>us\<close> that \<^verbatim>\<open>dt.timedelta\<close> makes
  of \<open>s\<close> fit a \<^verbatim>\<open>timedelta\<close>, and the shifted instant fits a \<^verbatim>\<open>datetime\<close> both in UTC
  and in UTC+8, \<^verbatim>\<open>_now\<close> returns the instant system instant + \<open>us\<close> in the zone UTC+8.
  In every other case it raises: \<^verbatim>\<open>TypeError\<close> when the manual offset is no number
  (\<^verbatim>\<open>OverflowError\<close> when it is an integer too large for a float), \<^verbatim>\<open>ValueError\<close>
  when \<open>s\<close> is NaN, \<^verbatim>\<open>OverflowError\<close> when \<open>s\<close> is infinite or a range is left. \<open>us\<close> is
  within \<open>1/2 + 2\<^sup>-\<^sup>3\<^sup>4\<close> microseconds of \<open>s\<close>. The method returns a value and assigns
  nothing.
\<close>

theorem now_is_system_plus_offsets:
  "now self t =
     (case as_number (manual_offset self) of
        Inl x \<Rightarrow> Inl x
      | Inr m \<Rightarrow>
         (case float64_add (round_double (offset self)) m of
            NonFin s \<Rightarrow> Inl (if s = NaN then ValueError else OverflowError)
          | Fin s \<Rightarrow>
             (if timedelta_min \<le> timedelta_us s \<and> timedelta_us s \<le> timedelta_max
                 \<and> datetime_min \<le> t + timedelta_us s
                 \<and> t + timedelta_us s + utc_plus_8 \<le> datetime_max
              then Inr (Aware (t + timedelta_us s) utc_plus_8)
              else Inl OverflowError)))
   \<and> \<bar>of_int (timedelta_us s') - 1000000 * s'\<bar> \<le> 1 / 2 + 1 / 2 ^ 34"
proof -
  have pos8: "0 \<le> utc_plus_8"
    by (simp add: utc_plus_8_def)
  have "now self t =
     (case as_number (manual_offset self) of
        Inl x \<Rightarrow> Inl x
      | Inr m \<Rightarrow>
         (case float64_add (round_double (offset self)) m of
            NonFin s \<Rightarrow> Inl (if s = NaN then ValueError else OverflowError)
          | Fin s \<Rightarrow>
             (if timedelta_min \<le> timedelta_us s \<and> timedelta_us s \<le> timedelta_max
                 \<and> datetime_min \<le> t + timedelta_us s
                 \<and> t + timedelta_us s + utc_plus_8 \<le> datetime_max
              then Inr (Aware (t + timedelta_us s) utc_plus_8)
              else Inl OverflowError)))"
  proof (cases "as_number (manual_offset self)")
    case (Inl x)
    then show ?thesis by (simp add: now_type_error)
  next
    case (Inr m)
    show ?thesis
    proof (cases "float64_add (round_double (offset self)) m")
      case (NonFin s)
      with Inr show ?thesis
        by (cases s) (simp_all add: now_def float_add_def)
    next
      case (Fin s)
      with Inr pos8 show ?thesis
        by (auto simp: now_def float_add_def datetime_add_def Let_def)
    qed
  qed
  with timedelta_us_near [of s'] show ?thesis by simp
qed

text \<open>A network offset of 3.5 seconds and a manual offset of 0.25 seconds at the
  instant 1 second: the displayed instant is 4.75 seconds, in UTC+8.\<close>

theorem now_is_system_plus_offsets_witness:
  "now (sample_app\<lparr>offset := 7 / 2, manual_offset := PFloat (1 / 4)\<rparr>) 1000000
     = Inr (Aware 4750000 utc_plus_8)
   \<and> \<bar>of_int (timedelta_us (15 / 4)) - 1000000 * (15 / 4 :: rat)\<bar> \<le> 1 / 2 + 1 / 2 ^ 34"
  using now_is_system_plus_offsets
    [of "sample_app\<lparr>offset := 7 / 2, manual_offset := PFloat (1 / 4)\<rparr>" 1000000 "15 / 4"]
  by (simp add: float_eval timedelta_min_def timedelta_max_def datetime_min_def
      datetime_max_def utc_plus_8_def)

text \<open>
  C3 as stated fails: it promises a displayed time for every triple and no failure mode.
  With a manual offset of \<open>10\<^sup>1\<^sup>4\<close> seconds (a value \<^verbatim>\<open>_load\<close> accepts from the
  settings file) \<^verbatim>\<open>dt.timedelta\<close> raises \<^verbatim>\<open>OverflowError\<close>.
\<close>

theorem now_overflow_counterexample:
  "now ((init (0, 0))\<lparr>manual_offset := PFloat 100000000000000\<rparr>) 0 = Inl OverflowError"
  by (simp add: now_def init_def float_add_def float_eval timedelta_min_def timedelta_max_def)

text \<open>More failures: a manual offset that is NaN, and one that is a string.\<close>

lemma now_nan:
  "now ((init (0, 0))\<lparr>manual_offset := PNonFinite NaN\<rparr>) 0 = Inl ValueError"
  by (simp add: now_def init_def float_add_def float_eval)

lemma now_not_a_number:
  "now ((init (0, 0))\<lparr>manual_offset := PStr ''fast''\<rparr>) 0 = Inl TypeError"
  by (simp add: now_def init_def float_add_def)

text \<open>
  Double precision shows. The double nearest to 0.1492315 seconds lies below it, yet
  its fraction times \<^verbatim>\<open>1e6\<close> rounds to 149231.5 and \<^verbatim>\<open>dt.timedelta\<close> holds 149232
  microseconds. A network offset of 0.00001 seconds added to a manual offset of
  \<open>10\<^sup>1\<^sup>1\<close> seconds is the float 100000000000.0000152587890625, which is displayed as 15
  microseconds past \<open>10\<^sup>1\<^sup>1\<close> seconds, not 10.
\<close>

lemma timedelta_us_near_tie: "timedelta_seconds (round_double (1492315 / 10000000)) = Inr 149232"
  by (simp add: float_eval timedelta_min_def timedelta_max_def)

lemma now_rounds_in_double_precision:
  "now ((init (0, 0))\<lparr>offset := 1 / 100000, manual_offset := PFloat 100000000000\<rparr>) 0
     = Inr (Aware 100000000000000015 utc_plus_8)"
  by (simp add: now_def init_def float_add_def datetime_add_def float_eval timedelta_min_def
      timedelta_max_def datetime_min_def datetime_max_def utc_plus_8_def)

subsection \<open>Fetching the time\<close>

lemma logger_clock [simp]: "clock (logger lvl msg w) = clock w"
  by (simp add: logger_def)

lemma logger_config [simp]: "config_file (logger lvl msg w) = config_file w"
  by (simp add: logger_def)

text \<open>The failures of the specification are the paths of \<^verbatim>\<open>fetch_ntp\<close> that reach
  its fallback: a timeout, a connection error or any other exception of the request, a
  response without the header, a header that does not parse.\<close>

lemma attempt_fails_iff:
  "server_instant L e = None \<longleftrightarrow>
     (\<exists>x. http e = Raises x) \<or> http e = Response None
     \<or> (\<exists>date x. http e = Response (Some date) \<and> parsedate_to_datetime L date = Inl x)"
  by (auto simp: server_instant_def split: http_result.splits option.splits sum.splits)

text \<open>A failed fetch returns the clock reading taken once the request is over.\<close>

lemma fetch_ntp_failure:
  assumes "server_instant L e = None"
  shows "\<exists>w'. fetch_ntp L e w = (Inr (Aware (clock w + int (latency e)) 0), w')
            \<and> clock w' = clock w + int (latency e) \<and> config_file w' = config_file w"
  using assms
  by (auto simp: server_instant_def fetch_ntp_def fetch_ntp_try_def fetch_ntp_fallback_def
      Let_def split: http_result.splits option.splits sum.splits)

lemma fetch_ntp_success:
  assumes "server_instant L e = Some d"
  shows "\<exists>w'. fetch_ntp L e w = (Inr d, w')
            \<and> clock w' = clock w + int (latency e) \<and> config_file w' = config_file w"
  using assms
  by (auto simp: server_instant_def fetch_ntp_def fetch_ntp_try_def fetch_ntp_fallback_def
      Let_def split: http_result.splits option.splits sum.splits)

lemma fetch_ntp_returns: "\<exists>d w'. fetch_ntp L e w = (Inr d, w')"
  by (cases "server_instant L e") (use fetch_ntp_failure fetch_ntp_success in blast)+

subsection \<open>One attempt of the loop\<close>

lemma ntp_attempt_failure:
  assumes "server_instant L e = None"
  shows "\<exists>w'. ntp_attempt L e (self, w)
            = (Inr (), self\<lparr>offset := total_seconds (- int (gap e))\<rparr>, w')
          \<and> clock w' = clock w + int (latency e) + int (gap e)"
proof -
  from fetch_ntp_failure [OF assms, of w] obtain w1 where
    "fetch_ntp L e w = (Inr (Aware (clock w + int (latency e)) 0), w1)"
    "clock w1 = clock w + int (latency e)" by blast
  then show ?thesis
    by (simp add: ntp_attempt_def ntp_attempt_try_def Let_def)
qed

lemma ntp_attempt_aware:
  assumes "server_instant L e = Some (Aware S z)"
  shows "\<exists>w'. ntp_attempt L e (self, w)
            = (Inr (),
               self\<lparr>offset := total_seconds (S - (clock w + int (latency e) + int (gap e)))\<rparr>,
               w')
          \<and> clock w' = clock w + int (latency e) + int (gap e)"
proof -
  from fetch_ntp_success [OF assms, of w] obtain w1 where
    "fetch_ntp L e w = (Inr (Aware S z), w1)"
    "clock w1 = clock w + int (latency e)" by blast
  then show ?thesis
    by (simp add: ntp_attempt_def ntp_attempt_try_def Let_def)
qed

text \<open>A naive server time cannot be subtracted from the aware local time: the
  \<^verbatim>\<open>TypeError\<close> is caught by the loop and the offset stays.\<close>

lemma ntp_attempt_naive:
  assumes "server_instant L e = Some (Naive S)"
  shows "\<exists>w'. ntp_attempt L e (self, w) = (Inr (), self, w')
          \<and> clock w' = clock w + int (latency e) + int (gap e)"
proof -
  from fetch_ntp_success [OF assms, of w] obtain w1 where
    "fetch_ntp L e w = (Inr (Naive S), w1)"
    "clock w1 = clock w + int (latency e)" by blast
  then show ?thesis
    by (simp add: ntp_attempt_def ntp_attempt_try_def Let_def)
qed

lemma ntp_attempt_returns:
  "\<exists>self' w'. ntp_attempt L e (self, w) = (Inr (), self', w')
      \<and> clock w' = clock w + int (latency e) + int (gap e)"
proof (cases "server_instant L e")
  case None
  from ntp_attempt_failure [OF this] show ?thesis by blast
next
  case (Some d)
  then show ?thesis
    by (cases d) (use ntp_attempt_naive ntp_attempt_aware in blast)+
qed

text \<open>
  C10. \<^verbatim>\<open>fetch_ntp\<close> returns a datetime on every path and never raises. When the
  attempt fails (the request raises, the header is missing or does not parse) the value
  returned is the local UTC clock reading taken at the fallback, and the loop computes
  the offset from it: minus the time between that reading and its own. The loop cannot
  tell the failure from a success: an attempt with the same timing whose server reports
  exactly that instant leaves the \<^verbatim>\<open>try\<close> statement the same way and leaves the same
  attributes.
\<close>

theorem fetch_ntp_never_signals_failure:
  "(\<exists>d w'. fetch_ntp L e w = (Inr d, w'))
   \<and> (server_instant L e = None \<longrightarrow>
        fst (fetch_ntp L e w) = Inr (Aware (clock w + int (latency e)) 0)
        \<and> fst (snd (ntp_attempt L e (self, w)))
            = self\<lparr>offset := total_seconds (- int (gap e))\<rparr>
        \<and> (server_instant L' e' = Some (Aware (clock w + int (latency e)) z)
             \<and> latency e' = latency e \<and> gap e' = gap e \<longrightarrow>
            fst (ntp_attempt L' e' (self, w)) = fst (ntp_attempt L e (self, w))
            \<and> fst (snd (ntp_attempt L' e' (self, w)))
                = fst (snd (ntp_attempt L e (self, w)))))"
proof -
  have "\<exists>d w'. fetch_ntp L e w = (Inr d, w')"
    by (rule fetch_ntp_returns)
  moreover have "fst (fetch_ntp L e w) = Inr (Aware (clock w + int (latency e)) 0)"
    if "server_instant L e = None"
    using fetch_ntp_failure [OF that, of w] by auto
  moreover have "fst (snd (ntp_attempt L e (self, w)))
            = self\<lparr>offset := total_seconds (- int (gap e))\<rparr>"
    and "fst (ntp_attempt L e (self, w)) = Inr ()"
    if "server_instant L e = None"
    using ntp_attempt_failure [OF that, of self w] by auto
  moreover have "fst (ntp_attempt L' e' (self, w)) = Inr ()
      \<and> fst (snd (ntp_attempt L' e' (self, w)))
          = self\<lparr>offset := total_seconds (- int (gap e))\<rparr>"
    if "server_instant L' e' = Some (Aware (clock w + int (latency e)) z)"
      and "latency e' = latency e" and "gap e' = gap e"
    using ntp_attempt_aware [OF that(1), of self w] that(2,3) by auto
  ultimately show ?thesis by simp
qed

theorem fetch_ntp_never_signals_failure_witness:
  "fst (fetch_ntp sample_lib timeout_env sample_world) = Inr (Aware 1793707205000000 0)
   \<and> fst (snd (ntp_attempt sample_lib timeout_env (init (0, 0), sample_world)))
       = (init (0, 0))\<lparr>offset := - (1 / 50000)\<rparr>
   \<and> fst (snd (ntp_attempt sample_lib (reply_env 5000000 20) (init (0, 0), sample_world)))
       = fst (snd (ntp_attempt sample_lib timeout_env (init (0, 0), sample_world)))"
  using fetch_ntp_never_signals_failure
    [of sample_lib timeout_env sample_world "init (0, 0)" sample_lib "reply_env 5000000 20" 0]
  by (simp add: server_instant_def total_seconds_def sample_defs)

text \<open>
  C1, as amended. A failed attempt does not raise and does not end the loop: the
  \<^verbatim>\<open>try\<close> statement is left normally and the loop reaches its next iteration after the
  pause. The network offset is not kept: it is overwritten with the fallback reading
  minus the loop's own later reading, that is minus the time between the two readings,
  whatever it was before.
\<close>

theorem failed_attempt_overwrites_offset:
  assumes "server_instant L (env n) = None"
    and "ntp_iterations L env n s = Some (self, w)"
  shows "\<exists>w'. ntp_attempt L (env n) (self, w)
            = (Inr (), self\<lparr>offset := - (of_nat (gap (env n)) / 1000000)\<rparr>, w')
          \<and> ntp_iterations L env (Suc n) s
            = Some (self\<lparr>offset := - (of_nat (gap (env n)) / 1000000)\<rparr>, sleep 600 w')"
  using ntp_attempt_failure [OF assms(1), of self w] assms(2)
  by (auto simp: total_seconds_def)

theorem failed_attempt_overwrites_offset_witness:
  "\<exists>w'. ntp_attempt sample_lib (sample_env 0) (sample_app, sample_world)
      = (Inr (), sample_app\<lparr>offset := - (1 / 50000)\<rparr>, w')
    \<and> ntp_iterations sample_lib sample_env (Suc 0) (sample_app, sample_world)
      = Some (sample_app\<lparr>offset := - (1 / 50000)\<rparr>, sleep 600 w')"
  using failed_attempt_overwrites_offset
    [of sample_lib sample_env 0 "(sample_app, sample_world)" sample_app sample_world]
  by (simp add: server_instant_def sample_defs)

text \<open>
  C1 as stated fails. The network offset is 3 seconds; the request times out; after
  the attempt the offset is \<open>-0.00002\<close> seconds, not 3.
\<close>

theorem failed_attempt_counterexample:
  "offset sample_app = 3
   \<and> server_instant sample_lib timeout_env = None
   \<and> offset (fst (snd (ntp_attempt sample_lib timeout_env (sample_app, sample_world))))
       = - (1 / 50000)"
  by (simp add: ntp_attempt_def ntp_attempt_try_def fetch_ntp_def fetch_ntp_try_def
      fetch_ntp_fallback_def logger_def total_seconds_def server_instant_def Let_def
      sample_app_def sample_defs)

text \<open>
  C2, as amended. When the attempt succeeds with an aware server instant \<open>S\<close>, the
  network offset is set to \<open>S\<close> minus the local UTC instant that the loop reads after
  \<^verbatim>\<open>fetch_ntp\<close> has returned (start of the attempt + duration of the request + the time
  until the reading); no reading is taken before the request. When the server instant
  is naive the subtraction raises, the loop catches it, and the offset stays.
\<close>

theorem successful_attempt_sets_offset:
  assumes "server_instant L e = Some d"
  shows "\<exists>w'. ntp_attempt L e (self, w) =
     (Inr (),
      (case d of
         Aware S z \<Rightarrow>
           self\<lparr>offset := total_seconds (S - (clock w + int (latency e) + int (gap e)))\<rparr>
       | Naive S \<Rightarrow> self),
      w')"
proof (cases d)
  case (Naive S)
  with ntp_attempt_naive [of L e S self w] assms show ?thesis by auto
next
  case (Aware S z)
  with ntp_attempt_aware [of L e S z self w] assms show ?thesis by auto
qed

theorem successful_attempt_sets_offset_witness:
  "\<exists>w'. ntp_attempt sample_lib (reply_env 2000000 0) (init (0, 0), sample_world)
      = (Inr (), (init (0, 0))\<lparr>offset := 3\<rparr>, w')"
  using successful_attempt_sets_offset
    [of sample_lib "reply_env 2000000 0" "Aware 1793707205000000 0" "init (0, 0)" sample_world]
  by (simp add: server_instant_def total_seconds_def sample_defs)

text \<open>
  C2 as stated fails. The request is issued at 12:00:00 local time and takes two
  seconds; the server reports 12:00:05. The offset becomes 3 seconds (server instant
  minus the reading after the request), not the 5 seconds that the server instant minus
  the instant before the request would give.
\<close>

theorem successful_attempt_counterexample:
  "server_instant sample_lib (reply_env 2000000 0) = Some (Aware 1793707205000000 0)
   \<and> offset (fst (snd (ntp_attempt sample_lib (reply_env 2000000 0)
         (init (0, 0), sample_world)))) = 3
   \<and> total_seconds (1793707205000000 - clock sample_world) = 5"
  by (simp add: ntp_attempt_def ntp_attempt_try_def fetch_ntp_def fetch_ntp_try_def
      fetch_ntp_fallback_def logger_def total_seconds_def server_instant_def Let_def sample_defs)

subsection \<open>The loop\<close>

text \<open>No exception leaves the \<^verbatim>\<open>try\<close> statement, so the loop has no way to end.\<close>

lemma ntp_loop_while_never_returns: "ntp_loop_while L env k s = None"
proof -
  have "False" if "ntp_loop_while L env k s = Some r" for r
  proof (rule ntp_loop_while.raw_induct [where P = "\<lambda>_ _ _ _ _. False", OF _ that])
    fix f L env k s r
    assume IH: "\<And>L env k s r. f L env k s = Some r \<Longrightarrow> False"
      and step: "(case ntp_attempt L (env k) s of
          (Inl x, self, w) \<Rightarrow> Some (x, self, w)
        | (Inr u, self, w) \<Rightarrow> f L env (Suc k) (self, sleep 600 w)) = Some r"
    obtain self w where s: "s = (self, w)" by (cases s)
    from ntp_attempt_returns [of L "env k" self w] obtain self' w' where
      "ntp_attempt L (env k) (self, w) = (Inr (), self', w')" by blast
    with step s have "f L env (Suc k) (self', sleep 600 w') = Some r" by simp
    then show False by (rule IH)
  qed
  then show ?thesis by (cases "ntp_loop_while L env k s") auto
qed

lemma count_attempts_logger:
  "count_attempts (logger lvl msg w) =
     count_attempts w + (if msg = NtpTrying \<and> level_no INFO \<le> level_no lvl then 1 else 0)"
  by (simp add: count_attempts_def logger_def)

lemma count_attempts_clock [simp]: "count_attempts (w\<lparr>clock := t\<rparr>) = count_attempts w"
  by (simp add: count_attempts_def)

lemma fetch_ntp_except_not_trying [simp]: "fetch_ntp_except x \<noteq> NtpTrying"
  by (cases x) simp_all

lemma fetch_ntp_count: "count_attempts (snd (fetch_ntp L e w)) = Suc (count_attempts w)"
  by (simp add: fetch_ntp_def fetch_ntp_try_def fetch_ntp_fallback_def Let_def
      count_attempts_logger split: http_result.splits option.splits sum.splits)

lemma ntp_attempt_count:
  "count_attempts (snd (snd (ntp_attempt L e (self, w)))) = Suc (count_attempts w)"
proof -
  obtain r w1 where f: "fetch_ntp L e w = (r, w1)" by (cases "fetch_ntp L e w")
  with fetch_ntp_count [of L e w] have "count_attempts w1 = Suc (count_attempts w)" by simp
  with f show ?thesis
    by (simp add: ntp_attempt_def ntp_attempt_try_def Let_def count_attempts_logger
        split: sum.splits)
qed

lemma sleep_simps [simp]:
  "clock (sleep n w) = clock w + int n * 1000000"
  "count_attempts (sleep n w) = count_attempts w"
  "config_file (sleep n w) = config_file w"
  "log_file (sleep n w) = log_file w"
  by (simp_all add: sleep_def count_attempts_def)

text \<open>The loop reaches every iteration: an iteration is one attempt that is left
  normally, then the pause.\<close>

lemma ntp_iterations_Suc:
  assumes "ntp_iterations L env n s = Some (self0, w0)"
  shows "\<exists>self w. ntp_attempt L (env n) (self0, w0) = (Inr (), self, w)
      \<and> ntp_iterations L env (Suc n) s = Some (self, sleep 600 w)
      \<and> clock w = clock w0 + int (latency (env n)) + int (gap (env n))
      \<and> count_attempts w = Suc (count_attempts w0)"
proof -
  from ntp_attempt_returns [of L "env n" self0 w0] obtain self w where
    a: "ntp_attempt L (env n) (self0, w0) = (Inr (), self, w)"
    and c: "clock w = clock w0 + int (latency (env n)) + int (gap (env n))" by blast
  from ntp_attempt_count [of L "env n" self0 w0] a
  have "count_attempts w = Suc (count_attempts w0)" by simp
  with assms a c show ?thesis by simp
qed

lemma ntp_iterations_reached:
  "\<exists>self w. ntp_iterations L env n s = Some (self, w)
      \<and> count_attempts w = count_attempts (snd s) + n"
proof (induction n)
  case 0
  show ?case by (cases s) simp
next
  case (Suc n)
  then obtain self0 w0 where s0: "ntp_iterations L env n s = Some (self0, w0)"
    and c0: "count_attempts w0 = count_attempts (snd s) + n" by blast
  from ntp_iterations_Suc [OF s0] c0 show ?case by auto
qed

lemma ntp_iterations_mock:
  assumes "\<forall>k<n. latency (env k) = 0 \<and> gap (env k) = 0"
    and "ntp_iterations L env n s = Some (self, w)"
  shows "clock w = clock (snd s) + 600000000 * int n"
  using assms
proof (induction n arbitrary: self w)
  case 0
  then show ?case by simp
next
  case (Suc n)
  from ntp_iterations_reached [of L env n s] obtain self0 w0 where
    s0: "ntp_iterations L env n s = Some (self0, w0)" by blast
  with Suc have c0: "clock w0 = clock (snd s) + 600000000 * int n" by simp
  from Suc.prems have z: "latency (env n) = 0" "gap (env n) = 0" by simp_all
  from ntp_iterations_Suc [OF s0] Suc.prems(2) obtain w1 where
    "w = sleep 600 w1" "clock w1 = clock w0 + int (latency (env n)) + int (gap (env n))"
    by auto
  with c0 z show ?case by (simp add: algebra_simps)
qed

text \<open>
  C6. The loop never returns. It reaches the top of every iteration \<open>n\<close>, with exactly
  \<open>n\<close> attempts made so far. Iteration \<open>n\<close> is one attempt, which is left normally
  whatever its outcome and is over no earlier than it began, followed by a pause of 600
  seconds, so that attempt \<open>n + 1\<close> starts exactly 600 seconds after attempt \<open>n\<close> is
  over. On a mock clock where requests take no time, attempt \<open>n\<close> starts \<open>600 n\<close>
  seconds after the loop.
\<close>

theorem ntp_loop_one_attempt_per_pause:
  "ntp_loop L env s = None
   \<and> (\<exists>self\<^sub>n w\<^sub>n self w.
         ntp_iterations L env n s = Some (self\<^sub>n, w\<^sub>n)
         \<and> count_attempts w\<^sub>n = count_attempts (snd s) + n
         \<and> ntp_attempt L (env n) (self\<^sub>n, w\<^sub>n) = (Inr (), self, w)
         \<and> clock w = clock w\<^sub>n + int (latency (env n)) + int (gap (env n))
         \<and> ntp_iterations L env (Suc n) s = Some (self, sleep 600 w)
         \<and> clock (sleep 600 w) = clock w + 600 * 1000000
         \<and> ((\<forall>k<n. latency (env k) = 0 \<and> gap (env k) = 0) \<longrightarrow>
              clock w\<^sub>n = clock (snd s) + 600 * 1000000 * int n))"
proof -
  have "ntp_loop L env s = None"
    by (cases s) (simp add: ntp_loop_def ntp_loop_while_never_returns)
  moreover from ntp_iterations_reached [of L env n s] obtain self0 w0 where
    s0: "ntp_iterations L env n s = Some (self0, w0)"
    and c0: "count_attempts w0 = count_attempts (snd s) + n" by blast
  from ntp_iterations_Suc [OF s0] obtain self w where
    "ntp_attempt L (env n) (self0, w0) = (Inr (), self, w)"
    "ntp_iterations L env (Suc n) s = Some (self, sleep 600 w)"
    "clock w = clock w0 + int (latency (env n)) + int (gap (env n))" by blast
  moreover have "(\<forall>k<n. latency (env k) = 0 \<and> gap (env k) = 0) \<longrightarrow>
      clock w0 = clock (snd s) + 600 * 1000000 * int n"
    using ntp_iterations_mock [OF _ s0] by simp
  ultimately show ?thesis
    using s0 c0 by simp
qed

theorem ntp_loop_one_attempt_per_pause_witness:
  "ntp_loop sample_lib mock_env (init (0, 0), sample_world) = None
   \<and> (\<exists>self w. ntp_iterations sample_lib mock_env 3 (init (0, 0), sample_world) = Some (self, w)
         \<and> count_attempts w = 3 \<and> clock w = 1793709000000000)"
  using ntp_loop_one_attempt_per_pause [of sample_lib mock_env "(init (0, 0), sample_world)" 3]
  by (auto simp: count_attempts_def sample_defs)

subsection \<open>Colour names and window positions\<close>

lemma hex_value_hex_digit: "n < 16 \<Longrightarrow> hex_value (hex_digit n) = Some n"
proof -
  assume "n < 16"
  then consider "n = 0" | "n = 1" | "n = 2" | "n = 3" | "n = 4" | "n = 5" | "n = 6" | "n = 7"
    | "n = 8" | "n = 9" | "n = 10" | "n = 11" | "n = 12" | "n = 13" | "n = 14" | "n = 15"
    by atomize_elim presburger
  then show ?thesis
    by cases (simp_all add: hex_value_def hex_digit_def)
qed

lemma parse_hex_byte_hex_byte:
  "hex_byte w = [hi, lo] \<Longrightarrow> parse_hex_byte hi lo = Some w"
proof -
  assume h: "hex_byte w = [hi, lo]"
  have "unat w < 256" using unsigned_less [of w, where ?'a = nat] by simp
  then have "unat w div 16 < 16" "unat w mod 16 < 16" by simp_all
  with h have "hex_value hi = Some (unat w div 16)" "hex_value lo = Some (unat w mod 16)"
    by (auto simp: hex_byte_def hex_value_hex_digit)
  then show ?thesis
    by (simp add: parse_hex_byte_def)
qed

text \<open>Reading back the name of a colour gives the colour.\<close>

lemma parse_hex6_color_name: "parse_hex6 (color_name c) = Some c"
proof -
  obtain r1 r2 where r: "hex_byte (red c) = [r1, r2]" by (simp add: hex_byte_def)
  obtain g1 g2 where g: "hex_byte (green c) = [g1, g2]" by (simp add: hex_byte_def)
  obtain b1 b2 where b: "hex_byte (blue c) = [b1, b2]" by (simp add: hex_byte_def)
  show ?thesis
    using parse_hex_byte_hex_byte [OF r] parse_hex_byte_hex_byte [OF g]
      parse_hex_byte_hex_byte [OF b]
    by (simp add: color_name_def r g b)
qed

lemma QColor_of_str_color_name: "QColor_of_str L (color_name c) = c"
  by (simp add: QColor_of_str_def parse_hex6_color_name)

lemma in_int32_sint: "in_int32 (sint (x :: 32 word))"
  using sint_range_size [of x] by (simp add: in_int32_def word_size)

lemma QPoint_sint: "QPoint (sint (fst p)) (sint (snd p)) = Inr p"
  by (simp add: QPoint_def in_int32_sint)

subsection \<open>Loading\<close>

text \<open>Once \<^verbatim>\<open>CONFIG_FILE.exists()\<close> has answered, no exception reaches the caller.\<close>

lemma load_never_raises:
  "path_exists (config_file w) = Inr b \<Longrightarrow> fst (load L self w) = Inr ()"
  by (cases b) (simp_all add: load_def Let_def split: prod.splits sum.splits)

lemma load_raises_iff:
  "fst (load L self w) = Inl x \<longleftrightarrow> path_exists (config_file w) = Inl x"
proof (cases "path_exists (config_file w)")
  case (Inl y)
  then show ?thesis by (simp add: load_def Let_def)
next
  case (Inr b)
  from load_never_raises [OF this, of L self] Inr show ?thesis by simp
qed

lemma load_without_settings:
  assumes "config_file w = Absent \<or> config_file w = Malformed \<or> config_file w = Unreadable x"
  shows "fst (snd (load L self w)) = self"
  using assms by (auto simp: load_def load_try_def Let_def)

text \<open>Valid JSON that is no object has no \<^verbatim>\<open>get\<close>: the \<^verbatim>\<open>AttributeError\<close> is caught
  and nothing is assigned.\<close>

lemma load_not_object:
  assumes "config_file w = Json v" and "\<And>d. v \<noteq> PDict d"
  shows "fst (snd (load L self w)) = self"
  using assms by (cases v) (auto simp: load_def load_try_def Let_def)

lemma is_positionE:
  assumes "is_position v"
  obtains x y where "v = PList [PInt x, PInt y]" and "in_int32 x" and "in_int32 y"
  using assms by (cases v rule: is_position.cases) auto

lemma load_pos_well_typed:
  assumes "has_type is_position d ''pos''" and "pos self = q"
  shows "\<exists>w'. load_pos L d self w =
     (Inr (),
      self\<lparr>pos := (case map_of d ''pos'' of None \<Rightarrow> q | Some v \<Rightarrow> position_of v)\<rparr>, w')"
proof (cases "map_of d ''pos''")
  case None
  with assms(2) show ?thesis
    by (auto simp: load_pos_def dict_get_def)
next
  case (Some v)
  with assms have "is_position v" by (simp add: has_type_def)
  then obtain x y where "v = PList [PInt x, PInt y]" "in_int32 x" "in_int32 y"
    by (rule is_positionE)
  with Some show ?thesis
    by (simp add: load_pos_def load_pos_try_def dict_get_def QPoint_def)
qed

lemma QColor_well_typed:
  assumes "has_type is_str d ''color''"
  shows "QColor L (dict_get d ''color'' (PStr (color_name c)))
     = Inr (case map_of d ''color'' of None \<Rightarrow> c | Some v \<Rightarrow> color_of L v)"
proof (cases "map_of d ''color''")
  case None
  then show ?thesis by (simp add: dict_get_def QColor_of_str_color_name)
next
  case (Some v)
  with assms have "is_str v" by (simp add: has_type_def)
  then obtain s where "v = PStr s" by (cases v) auto
  with Some show ?thesis by (simp add: dict_get_def)
qed

text \<open>On a well-typed object every assignment of \<^verbatim>\<open>_load\<close> is reached, and each takes
  the file's value if the key is there and the attribute's current value if not
  (\<^verbatim>\<open>0.0\<close> for the manual offset).\<close>

lemma load_dict_well_typed:
  assumes "well_typed d"
  shows "\<exists>w'. load_dict L d self w =
     (Inr (),
      \<lparr>time_pt = dict_get d ''font'' (time_pt self),
       spacing = dict_get d ''spacing'' (spacing self),
       opacity = dict_get d ''opacity'' (opacity self),
       topmost = dict_get d ''top'' (topmost self),
       color = (case map_of d ''color'' of None \<Rightarrow> color self | Some v \<Rightarrow> color_of L v),
       offset = offset self,
       manual_offset = dict_get d ''offset'' (PFloat 0),
       pos = (case map_of d ''pos'' of None \<Rightarrow> pos self | Some v \<Rightarrow> position_of v)\<rparr>, w')"
proof -
  from assms have c: "has_type is_str d ''color''" and p: "has_type is_position d ''pos''"
    by (simp_all add: well_typed_def)
  define cl where
    "cl = (case map_of d ''color'' of None \<Rightarrow> color self | Some v \<Rightarrow> color_of L v)"
  define pp where
    "pp = (case map_of d ''pos'' of None \<Rightarrow> pos self | Some v \<Rightarrow> position_of v)"
  define s6 where "s6 = self\<lparr>time_pt := dict_get d ''font'' (time_pt self),
      opacity := dict_get d ''opacity'' (opacity self),
      spacing := dict_get d ''spacing'' (spacing self),
      color := cl,
      topmost := dict_get d ''top'' (topmost self),
      manual_offset := dict_get d ''offset'' (PFloat 0)\<rparr>"
  have q: "QColor L (dict_get d ''color'' (PStr (color_name (color self)))) = Inr cl"
    unfolding cl_def by (rule QColor_well_typed [OF c])
  have "pos s6 = pos self" by (simp add: s6_def)
  from load_pos_well_typed [OF p this, of L w] obtain w1 where
    lp: "load_pos L d s6 w = (Inr (), s6\<lparr>pos := pp\<rparr>, w1)"
    unfolding pp_def by blast
  have "load_dict L d self w =
     (Inr (), s6\<lparr>pos := pp\<rparr>, logger DEBUG LoadedAttrs (logger INFO Loaded w1))"
    using lp unfolding s6_def by (simp add: load_dict_def Let_def q)
  moreover have "s6\<lparr>pos := pp\<rparr>
    = \<lparr>time_pt = dict_get d ''font'' (time_pt self),
       spacing = dict_get d ''spacing'' (spacing self),
       opacity = dict_get d ''opacity'' (opacity self),
       topmost = dict_get d ''top'' (topmost self),
       color = cl,
       offset = offset self,
       manual_offset = dict_get d ''offset'' (PFloat 0),
       pos = pp\<rparr>"
    by (rule app.equality) (simp_all add: s6_def)
  ultimately show ?thesis
    unfolding cl_def pp_def by simp
qed

lemma load_well_typed:
  assumes "config_file w = Json (PDict d)" and "well_typed d"
  shows "\<exists>w'. load L self w =
     (Inr (),
      \<lparr>time_pt = dict_get d ''font'' (time_pt self),
       spacing = dict_get d ''spacing'' (spacing self),
       opacity = dict_get d ''opacity'' (opacity self),
       topmost = dict_get d ''top'' (topmost self),
       color = (case map_of d ''color'' of None \<Rightarrow> color self | Some v \<Rightarrow> color_of L v),
       offset = offset self,
       manual_offset = dict_get d ''offset'' (PFloat 0),
       pos = (case map_of d ''pos'' of None \<Rightarrow> pos self | Some v \<Rightarrow> position_of v)\<rparr>, w')"
proof -
  from load_dict_well_typed
    [OF assms(2), of L self "logger DEBUG RawData (logger INFO LoadTrying w)"]
  obtain w1 where "load_dict L d self (logger DEBUG RawData (logger INFO LoadTrying w)) =
     (Inr (),
      \<lparr>time_pt = dict_get d ''font'' (time_pt self),
       spacing = dict_get d ''spacing'' (spacing self),
       opacity = dict_get d ''opacity'' (opacity self),
       topmost = dict_get d ''top'' (topmost self),
       color = (case map_of d ''color'' of None \<Rightarrow> color self | Some v \<Rightarrow> color_of L v),
       offset = offset self,
       manual_offset = dict_get d ''offset'' (PFloat 0),
       pos = (case map_of d ''pos'' of None \<Rightarrow> pos self | Some v \<Rightarrow> position_of v)\<rparr>, w1)"
    by blast
  with assms(1) show ?thesis
    by (simp add: load_def load_try_def Let_def)
qed

lemma well_typed_cong:
  assumes "\<forall>k\<in>set known_keys. map_of d' k = map_of d k"
  shows "well_typed d' = well_typed d"
  using assms by (simp add: well_typed_def has_type_def known_keys_def)

text \<open>
  C4. At start-up (\<^verbatim>\<open>_load\<close> runs on the defaults of \<^verbatim>\<open>__init__\<close>) a settings file
  holding a JSON object with well-typed values gives, attribute by attribute, the file's
  value where the key is present and the built-in default where it is absent. Keys
  other than the seven known ones play no part: a file that agrees with this one on
  the known keys loads to the same attributes.
\<close>

theorem load_merges_file_with_defaults:
  assumes "config_file w = Json (PDict d)" and "well_typed d"
    and "\<forall>k\<in>set known_keys. map_of d' k = map_of d k"
  shows "(\<exists>w'. load L (init p) w =
     (Inr (),
      \<lparr>time_pt = dict_get d ''font'' (PFloat 10),
       spacing = dict_get d ''spacing'' (PFloat 2),
       opacity = dict_get d ''opacity'' (PFloat 90),
       topmost = dict_get d ''top'' (PBool True),
       color = (case map_of d ''color'' of None \<Rightarrow> white | Some v \<Rightarrow> color_of L v),
       offset = 0,
       manual_offset = dict_get d ''offset'' (PFloat 0),
       pos = (case map_of d ''pos'' of None \<Rightarrow> p | Some v \<Rightarrow> position_of v)\<rparr>, w'))
   \<and> fst (snd (load L (init p) (w\<lparr>config_file := Json (PDict d')\<rparr>)))
       = fst (snd (load L (init p) w))"
proof -
  have wt': "well_typed d'"
    using well_typed_cong [OF assms(3)] assms(2) by simp
  have f': "config_file (w\<lparr>config_file := Json (PDict d')\<rparr>) = Json (PDict d')" by simp
  from assms(3) have same: "map_of d' ''font'' = map_of d ''font''"
    "map_of d' ''spacing'' = map_of d ''spacing''" "map_of d' ''opacity'' = map_of d ''opacity''"
    "map_of d' ''top'' = map_of d ''top''" "map_of d' ''color'' = map_of d ''color''"
    "map_of d' ''offset'' = map_of d ''offset''" "map_of d' ''pos'' = map_of d ''pos''"
    by (simp_all add: known_keys_def)
  from load_well_typed [OF assms(1,2), of L "init p"] obtain w1 where
    l1: "load L (init p) w =
     (Inr (),
      \<lparr>time_pt = dict_get d ''font'' (PFloat 10),
       spacing = dict_get d ''spacing'' (PFloat 2),
       opacity = dict_get d ''opacity'' (PFloat 90),
       topmost = dict_get d ''top'' (PBool True),
       color = (case map_of d ''color'' of None \<Rightarrow> white | Some v \<Rightarrow> color_of L v),
       offset = 0,
       manual_offset = dict_get d ''offset'' (PFloat 0),
       pos = (case map_of d ''pos'' of None \<Rightarrow> p | Some v \<Rightarrow> position_of v)\<rparr>, w1)"
    by (auto simp: init_def cong: option.case_cong)
  from load_well_typed [OF f' wt', of L "init p"] obtain w2 where
    l2: "load L (init p) (w\<lparr>config_file := Json (PDict d')\<rparr>) =
     (Inr (),
      \<lparr>time_pt = dict_get d ''font'' (PFloat 10),
       spacing = dict_get d ''spacing'' (PFloat 2),
       opacity = dict_get d ''opacity'' (PFloat 90),
       topmost = dict_get d ''top'' (PBool True),
       color = (case map_of d ''color'' of None \<Rightarrow> white | Some v \<Rightarrow> color_of L v),
       offset = 0,
       manual_offset = dict_get d ''offset'' (PFloat 0),
       pos = (case map_of d ''pos'' of None \<Rightarrow> p | Some v \<Rightarrow> position_of v)\<rparr>, w2)"
    by (auto simp: init_def dict_get_def same cong: option.case_cong)
  from l1 l2 show ?thesis by simp
qed

theorem load_merges_file_with_defaults_witness:
  "(\<exists>w'. load sample_lib (init (0, 0))
            (sample_world\<lparr>config_file := Json (PDict sample_settings)\<rparr>) =
     (Inr (),
      \<lparr>time_pt = PFloat 14, spacing = PFloat 3, opacity = PFloat 90, topmost = PBool False,
       color = \<lparr>red = 255, green = 128, blue = 0\<rparr>, offset = 0,
       manual_offset = PFloat (3 / 2), pos = (100, 40)\<rparr>, w'))
   \<and> fst (snd (load sample_lib (init (0, 0))
         (sample_world\<lparr>config_file := Json (PDict (butlast sample_settings))\<rparr>)))
       = fst (snd (load sample_lib (init (0, 0))
         (sample_world\<lparr>config_file := Json (PDict sample_settings)\<rparr>)))"
  using load_merges_file_with_defaults
    [of "sample_world\<lparr>config_file := Json (PDict sample_settings)\<rparr>" sample_settings
        "butlast sample_settings" sample_lib "(0, 0)"]
  by (simp add: well_typed_def has_type_def known_keys_def in_int32_def dict_get_def
      QColor_of_str_def parse_hex_byte_def hex_value_def sample_settings_def)

subsection \<open>Saving and loading\<close>

lemma save_ok:
  "save SaveOk self w =
     (Inr (), self,
      logger INFO Saved ((logger INFO SaveTrying w)\<lparr>config_file := Json (save_data self)\<rparr>))"
  by (simp add: save_def save_try_def Let_def logger_def)

lemma load_saved:
  assumes "config_file w = Json (save_data self)"
  shows "\<exists>w'. load L fresh w = (Inr (), self\<lparr>offset := offset fresh\<rparr>, w')"
proof -
  have pos: "load_pos L [(''font'', a1), (''opacity'', a2), (''spacing'', a3), (''color'', a4),
       (''top'', a5), (''offset'', a6),
       (''pos'', PList [PInt (sint (fst (pos self))), PInt (sint (snd (pos self)))])] s w1
     = (Inr (), s\<lparr>pos := pos self\<rparr>,
        logger INFO (PosLoaded (PInt (sint (fst (pos self)))) (PInt (sint (snd (pos self))))) w1)"
    for a1 a2 a3 a4 a5 a6 s w1
    by (simp add: load_pos_def load_pos_try_def dict_get_def QPoint_sint)
  have "fresh\<lparr>time_pt := time_pt self, opacity := opacity self, spacing := spacing self,
      color := color self, topmost := topmost self, manual_offset := manual_offset self,
      pos := pos self\<rparr> = self\<lparr>offset := offset fresh\<rparr>"
    by (rule app.equality) simp_all
  with assms show ?thesis
    by (simp add: load_def load_try_def load_dict_def save_data_def dict_get_def
        QColor_of_str_color_name pos Let_def)
qed

text \<open>
  C5. A successful save followed by a load, in whatever widget the load runs (a fresh
  process holds the defaults), returns without raising and leaves the seven settings of
  the widget that was saved: font size, opacity, spacing, colour, topmost flag, manual
  offset and window position; only the network offset, which is not a setting, is the
  loading widget's own. Without a settings file, loading at start-up returns without
  raising and leaves the defaults.
\<close>

theorem settings_round_trip:
  "(\<exists>w1 w2. save SaveOk self w = (Inr (), self, w1)
       \<and> load L fresh w1 = (Inr (), self\<lparr>offset := offset fresh\<rparr>, w2))
   \<and> (config_file w = Absent \<longrightarrow> (\<exists>w'. load L (init p) w = (Inr (), init p, w')))"
proof -
  have "config_file (snd (snd (save SaveOk self w))) = Json (save_data self)"
    by (simp add: save_ok)
  from load_saved [OF this, of L fresh]
  have "\<exists>w1 w2. save SaveOk self w = (Inr (), self, w1)
       \<and> load L fresh w1 = (Inr (), self\<lparr>offset := offset fresh\<rparr>, w2)"
    by (simp add: save_ok)
  moreover have "\<exists>w'. load L (init p) w = (Inr (), init p, w')" if "config_file w = Absent"
    using that by (simp add: load_def Let_def)
  ultimately show ?thesis by blast
qed

theorem settings_round_trip_witness:
  "(\<exists>w1 w2. save SaveOk sample_app sample_world = (Inr (), sample_app, w1)
       \<and> load sample_lib (init (0, 0)) w1 = (Inr (), sample_app\<lparr>offset := 0\<rparr>, w2))
   \<and> (\<exists>w'. load sample_lib (init (0, 0)) sample_world = (Inr (), init (0, 0), w'))"
  using settings_round_trip [of sample_app sample_world sample_lib "init (0, 0)" "(0, 0)"]
  by (simp add: sample_world_def init_def)

text \<open>
  What holds of C7: when the existence test answers, \<^verbatim>\<open>_load\<close> returns normally
  whatever the file holds, and a file that is missing, is not valid JSON or cannot be
  read leaves every default at start-up.
\<close>

lemma load_defaults:
  assumes "config_file w = Absent \<or> config_file w = Malformed \<or> config_file w = Unreadable x"
  shows "fst (load L (init p) w) = Inr () \<and> fst (snd (load L (init p) w)) = init p"
proof -
  from assms have "\<exists>b. path_exists (config_file w) = Inr b" by auto
  then obtain b where "path_exists (config_file w) = Inr b" ..
  from load_never_raises [OF this] load_without_settings [OF assms] show ?thesis by simp
qed

text \<open>
  C7 fails on the code. The test \<^verbatim>\<open>CONFIG_FILE.exists()\<close> stands before the \<^verbatim>\<open>try\<close>
  statement. When the settings file cannot be examined (its \<^verbatim>\<open>stat\<close> fails with a
  \<^verbatim>\<open>PermissionError\<close>, say), \<^verbatim>\<open>Path.exists\<close> raises, neither handler is in reach, and
  the exception leaves \<^verbatim>\<open>_load\<close>, although its docstring promises the defaults when
  loading fails.
\<close>

theorem load_propagates_stat_error:
  "load sample_lib (init (0, 0)) (sample_world\<lparr>config_file := Inaccessible PermissionError\<rparr>)
     = (Inl PermissionError, init (0, 0),
        logger INFO LoadTrying (sample_world\<lparr>config_file := Inaccessible PermissionError\<rparr>))"
  by (simp add: load_def Let_def)

text \<open>
  C8. When a save fails, while the dictionary is built or serialised or while the file
  is written, \<^verbatim>\<open>_save\<close> logs the error and returns normally, and the widget is exactly
  the one it was given; the settings file is untouched in the first case and is
  whatever the failed write left in the second.
\<close>

theorem save_failure_is_swallowed:
  "save (BuildFails x) self w
     = (Inr (), self, logger ERROR (SaveFailed x) (logger INFO SaveTrying w))
   \<and> save (WriteFails y f) self w
     = (Inr (), self,
        logger ERROR (SaveFailed y) ((logger INFO SaveTrying w)\<lparr>config_file := f\<rparr>))"
  by (simp add: save_def save_try_def)

theorem save_failure_is_swallowed_witness:
  "fst (save (WriteFails OSError Malformed) sample_app sample_world) = Inr ()
   \<and> fst (snd (save (WriteFails OSError Malformed) sample_app sample_world)) = sample_app
   \<and> config_file (snd (snd (save (BuildFails TypeError) sample_app sample_world))) = Absent"
  using save_failure_is_swallowed [of TypeError sample_app sample_world OSError Malformed]
  by (simp add: sample_world_def)

subsection \<open>What reaches the disk\<close>

lemma load_pos_frame:
  "load_pos L d self w = (r, self', w') \<Longrightarrow>
     offset self' = offset self \<and> config_file w' = config_file w"
  by (auto simp: load_pos_def load_pos_try_def Let_def
      split: if_splits pyval.splits sum.splits prod.splits)

lemma load_dict_frame:
  "load_dict L d self w = (r, self', w') \<Longrightarrow>
     offset self' = offset self \<and> config_file w' = config_file w"
  by (auto simp: load_dict_def Let_def split: sum.splits prod.splits dest!: load_pos_frame)

lemma load_try_frame:
  "load_try L self w = (r, self', w') \<Longrightarrow>
     offset self' = offset self \<and> config_file w' = config_file w"
  by (auto simp: load_try_def split: file_state.splits pyval.splits dest!: load_dict_frame)

lemma load_frame:
  "offset (fst (snd (load L self w))) = offset self
   \<and> config_file (snd (snd (load L self w))) = config_file w"
proof (cases "path_exists (config_file w)")
  case (Inl x)
  then show ?thesis by (simp add: load_def Let_def)
next
  case (Inr b)
  obtain r self' w' where l: "load_try L self (logger INFO LoadTrying w) = (r, self', w')"
    by (cases "load_try L self (logger INFO LoadTrying w)")
  from load_try_frame [OF l] l Inr show ?thesis
    by (cases r; cases b) (auto simp: load_def Let_def)
qed

lemma ntp_attempt_config:
  "config_file (snd (snd (ntp_attempt L e (self, w)))) = config_file w"
proof -
  obtain d w1 where f: "fetch_ntp L e w = (Inr d, w1)" "config_file w1 = config_file w"
    using fetch_ntp_failure [of L e w] fetch_ntp_success [of L e _ w]
    by (cases "server_instant L e") blast+
  then show ?thesis
    by (simp add: ntp_attempt_def ntp_attempt_try_def Let_def split: sum.splits)
qed

text \<open>
  C9, as amended. A successful save writes a settings file with exactly the keys
  \<^verbatim>\<open>font\<close>, \<^verbatim>\<open>opacity\<close>, \<^verbatim>\<open>spacing\<close>, \<^verbatim>\<open>color\<close>, \<^verbatim>\<open>top\<close>, \<^verbatim>\<open>offset\<close>, \<^verbatim>\<open>pos\<close>, where
  \<^verbatim>\<open>offset\<close> holds the manual offset. The network offset never reaches the settings
  file: what a save leaves there does not depend on it, and neither an attempt of the
  sync loop nor a load changes the file. A load never assigns the network offset, so it
  lives in memory only and every process starts from zero.
\<close>

theorem settings_file_never_holds_network_offset:
  "(\<exists>w' kvs. save SaveOk self w = (Inr (), self, w') \<and> config_file w' = Json (PDict kvs)
       \<and> map fst kvs = known_keys \<and> map_of kvs ''offset'' = Some (manual_offset self))
   \<and> config_file (snd (snd (save env (self\<lparr>offset := x\<rparr>) w)))
       = config_file (snd (snd (save env self w)))
   \<and> config_file (snd (snd (ntp_attempt L e (self, w)))) = config_file w
   \<and> config_file (snd (snd (load L self w))) = config_file w
   \<and> offset (fst (snd (load L self w))) = offset self"
proof -
  have "\<exists>w' kvs. save SaveOk self w = (Inr (), self, w') \<and> config_file w' = Json (PDict kvs)
       \<and> map fst kvs = known_keys \<and> map_of kvs ''offset'' = Some (manual_offset self)"
    by (simp add: save_ok save_data_def known_keys_def)
  moreover have "config_file (snd (snd (save env (self\<lparr>offset := x\<rparr>) w)))
       = config_file (snd (snd (save env self w)))"
    by (cases env) (simp_all add: save_def save_try_def save_data_def Let_def)
  ultimately show ?thesis
    using ntp_attempt_config [of L e self w] load_frame [of L self w] by simp
qed

theorem settings_file_never_holds_network_offset_witness:
  "(\<exists>w' kvs. save SaveOk sample_app sample_world = (Inr (), sample_app, w')
       \<and> config_file w' = Json (PDict kvs) \<and> map fst kvs = known_keys
       \<and> map_of kvs ''offset'' = Some (PFloat (3 / 2)))
   \<and> config_file (snd (snd (save SaveOk (sample_app\<lparr>offset := 7\<rparr>) sample_world)))
       = config_file (snd (snd (save SaveOk sample_app sample_world)))
   \<and> config_file (snd (snd (ntp_attempt sample_lib timeout_env (sample_app, sample_world))))
       = Absent"
  using settings_file_never_holds_network_offset
    [of sample_app sample_world SaveOk 7 sample_lib timeout_env]
  by (simp add: sample_app_def sample_world_def)

text \<open>
  C9 as stated fails: it says that no operation writes the network offset to disk. The
  sync loop logs every offset it computes at level \<^verbatim>\<open>INFO\<close>, and the log is a file on
  disk. After a successful attempt that sets the offset to 3 seconds, the last record
  of the log file holds that value.
\<close>

theorem network_offset_in_log_file_counterexample:
  "offset (fst (snd (ntp_attempt sample_lib (reply_env 2000000 0)
       (init (0, 0), sample_world)))) = 3
   \<and> last (log_file (snd (snd (ntp_attempt sample_lib (reply_env 2000000 0)
       (init (0, 0), sample_world))))) = (1793707202000000, INFO, OffsetUpdated 3)"
  by (simp add: ntp_attempt_def ntp_attempt_try_def fetch_ntp_def fetch_ntp_try_def
      fetch_ntp_fallback_def logger_def total_seconds_def Let_def sample_defs)

end
